theory Spec2Isabelle
  imports Complex_Main
begin

section \<open>Values of the service\<close>

text \<open>
  The repository holds two variants of one HTTP service: \<^verbatim>\<open>main_freecad.py\<close> (size and
  MIME validation, rate limiting, inch dimensions, fields scraped from notes) and
  \<^verbatim>\<open>main.py\<close> (no validation, bounding box in the response). Both handle
  \<^verbatim>\<open>POST /unfold\<close> by a straight-line sequence of calls into external libraries
  (libmagic, tempfile, ezdxf, the FreeCAD kernel, the SheetMetal unfolder) inside
  \<^verbatim>\<open>try / except Exception / finally\<close>.

  The external libraries are not part of the repository. Their answers are taken from an
  environment record: one field per library entry point, each answer a value of
  \<open>exn + 'a\<close> with \<open>Inl\<close> for a raised exception. The handler itself, its checks, its
  local variables and its temp-file bookkeeping are modelled as written.
\<close>

text \<open>
  A raised exception that is an instance of \<^verbatim>\<open>Exception\<close>, with its \<^verbatim>\<open>str\<close>. Exceptions
  that are no instance of \<^verbatim>\<open>Exception\<close> (\<^verbatim>\<open>KeyboardInterrupt\<close>, \<^verbatim>\<open>SystemExit\<close>) are not
  modelled.
\<close>

datatype exn = Exn string

fun str :: "exn \<Rightarrow> string" where
  "str (Exn m) = m"

datatype json =
    JNull
  | JNum real
  | JStr string
  | JList "json list"
  | JObj "(string \<times> json) list"

record response =
  status_code :: nat
  content :: json

record upload =
  up_filename :: string
  up_bytes :: string

record bound_box =
  XLength :: real
  YLength :: real
  ZLength :: real

text \<open>
  A document object of the kernel. The handler only tests it for truth
  (\<^verbatim>\<open>if SheetMetalUnfolder and obj\<close>) and reads \<^verbatim>\<open>obj.Shape.BoundBox\<close>, which can raise
  (an imported object need not carry a shape).
\<close>

record obj =
  truthy :: bool
  Shape_BoundBox :: "exn + bound_box"

text \<open>
  What the handler reads from a parsed DXF document: the header variables, the layer
  names (\<^verbatim>\<open>layer.dxf.name for layer in dxf_doc.layers\<close>), the texts of the TEXT entities
  (\<^verbatim>\<open>e.dxf.text for e in dxf_doc.query('TEXT')\<close>) and the modelspace entities. Entities
  are opaque: \<open>'e\<close>.
\<close>

record 'e dxf_doc =
  header :: "string \<rightharpoonup> int"
  layers :: "string list"
  text_entities :: "string list"
  modelspace :: "'e list"

section \<open>The environment: answers of the external libraries\<close>

record 'e env =
  SheetMetalUnfolder :: "(obj \<Rightarrow> exn + obj) option"
  magic_from_buffer :: "string \<Rightarrow> exn + string"
  upload_tmp_stem :: "exn + string"
  flat_tmp_stem :: "exn + string"
  tmp_write :: "string \<Rightarrow> exn + unit"
  newDocument :: "exn + unit"
  ezdxf_readfile :: "string \<Rightarrow> exn + 'e dxf_doc"
  scale_uniform :: "real \<Rightarrow> 'e \<Rightarrow> exn + 'e"
  saveas :: "'e dxf_doc \<Rightarrow> exn + string"
  Import_insert :: "string \<Rightarrow> exn + obj list"
  Import_importDXF :: "string \<Rightarrow> exn + obj list"
  Part_read :: "string \<Rightarrow> exn + bound_box"
  recompute :: "nat \<Rightarrow> exn + unit"
  Import_export :: "obj \<Rightarrow> exn + string"
  format_exc :: "exn \<Rightarrow> string"
  os_remove :: "string \<Rightarrow> exn + unit"
  str_lower :: "string \<Rightarrow> string"
  str_strip :: "string \<Rightarrow> string"
  float_mul :: "real \<Rightarrow> real \<Rightarrow> real"
  py_round :: "real \<Rightarrow> nat \<Rightarrow> real"

text \<open>
  \<^item> \<open>SheetMetalUnfolder\<close> is the module-level global: \<open>None\<close> when loading the module
    failed at start-up, otherwise its \<^verbatim>\<open>makeUnfold\<close>.
  \<^item> \<open>upload_tmp_stem\<close> and \<open>flat_tmp_stem\<close> are the names chosen by the two
    \<^verbatim>\<open>NamedTemporaryFile(delete=False, suffix=...)\<close> calls, without the suffix.
  \<^item> \<open>ezdxf_readfile\<close>, \<open>Import_insert\<close>, \<open>Import_importDXF\<close> and \<open>Part_read\<close> answer
    on the content of the file they are given; \<open>saveas\<close> and \<open>Import_export\<close> answer
    with the text they write.
  \<^item> \<open>recompute n\<close> is the answer of the \<open>n\<close>-th \<^verbatim>\<open>doc.recompute()\<close> of the request.
  \<^item> \<open>format_exc\<close> is \<^verbatim>\<open>traceback.format_exc()\<close> for the exception being handled.
  \<^item> \<open>os_remove\<close> is the answer of \<^verbatim>\<open>os.remove\<close> on a path that exists.
  \<^item> \<open>str_lower\<close> and \<open>str_strip\<close> are \<^verbatim>\<open>str.lower()\<close> and \<^verbatim>\<open>str.strip()\<close> of the
    interpreter, whose Unicode tables are not part of the repository.
  \<^item> \<open>float_mul\<close> and \<open>py_round\<close> are the product of two floats and
    \<^verbatim>\<open>round(x, decimals)\<close>: binary floating point is not modelled, numbers are reals
    and the two operations are taken as the interpreter computes them.
\<close>

section \<open>The request state\<close>

text \<open>
  Every call that can raise is logged with its outcome (\<open>None\<close>: it returned,
  \<open>Some e\<close>: it raised \<open>e\<close>), so that properties can speak about which library calls a
  request made.
\<close>

datatype 'e call =
    magic_from_buffer_call string
  | NamedTemporaryFile_call string
  | tmp_write_call string
  | newDocument_call
  | ezdxf_readfile_call string
  | scale_uniform_call real 'e
  | saveas_call string
  | Import_insert_call string
  | Import_importDXF_call string
  | Objects_last_call
  | Part_read_call string
  | recompute_call
  | makeUnfold_call obj
  | BoundBox_call obj
  | Import_export_call obj string
  | read_text_call string
  | os_remove_call string

text \<open>
  The filesystem maps a path to the content of the file there. \<open>tmp_path\<close> and
  \<open>flat_dxf_path\<close> are the handler's two local variables that the \<^verbatim>\<open>finally\<close> block
  reads.
\<close>

record 'e st =
  fs :: "string \<rightharpoonup> string"
  trace :: "('e call \<times> exn option) list"
  tmp_path :: "string option"
  flat_dxf_path :: "string option"

definition outcome :: "exn + 'a \<Rightarrow> exn option" where
  "outcome r = (case r of Inl e \<Rightarrow> Some e | Inr _ \<Rightarrow> None)"

definition step :: "'e call \<Rightarrow> exn + 'a \<Rightarrow> 'e st \<Rightarrow> (exn + 'a) \<times> 'e st" where
  "step c r s = (r, s\<lparr>trace := trace s @ [(c, outcome r)]\<rparr>)"

text \<open>Sequencing inside \<^verbatim>\<open>try\<close>: a raised exception skips the rest.\<close>

definition then_do ::
  "('s \<Rightarrow> (exn + 'a) \<times> 's) \<Rightarrow> ('a \<Rightarrow> 's \<Rightarrow> (exn + 'b) \<times> 's) \<Rightarrow> 's \<Rightarrow> (exn + 'b) \<times> 's"
where
  "then_do m f s = (case m s of (Inl e, s') \<Rightarrow> (Inl e, s') | (Inr x, s') \<Rightarrow> f x s')"

definition return :: "'a \<Rightarrow> 's \<Rightarrow> (exn + 'a) \<times> 's" where
  "return x s = (Inr x, s)"

definition read_file :: "'e st \<Rightarrow> string \<Rightarrow> exn + string" where
  "read_file s p = (case fs s p of None \<Rightarrow> Inl (Exn ''FileNotFoundError'') | Some c \<Rightarrow> Inr c)"

section \<open>String helpers\<close>

definition after_last :: "char \<Rightarrow> string \<Rightarrow> string" where
  "after_last c s = rev (takeWhile (\<lambda>x. x \<noteq> c) (rev s))"

text \<open>
  \<^verbatim>\<open>os.path.splitext(p)[-1]\<close> (posixpath): the extension starts at the last dot of the
  last path component, leading dots of that component not counted.
\<close>

definition splitext_ext :: "string \<Rightarrow> string" where
  "splitext_ext p =
     (let base = after_last CHR ''/'' p;
          rest = dropWhile (\<lambda>x. x = CHR ''.'') base
      in if CHR ''.'' \<in> set rest then CHR ''.'' # after_last CHR ''.'' rest else [])"

fun str_contains :: "string \<Rightarrow> string \<Rightarrow> bool" where
  "str_contains sub [] = (sub = [])"
| "str_contains sub (c # cs) = (take (length sub) (c # cs) = sub \<or> str_contains sub cs)"

definition file_suffix :: "'e env \<Rightarrow> upload \<Rightarrow> string" where
  "file_suffix env file = str_lower env (splitext_ext (up_filename file))"

section \<open>Pieces shared by the two handlers\<close>

text \<open>\<^verbatim>\<open>def mm_to_inches(val_mm, decimals=3): return round(val_mm * 0.0393701, decimals)\<close>\<close>

definition mm_to_inches :: "'e env \<Rightarrow> real \<Rightarrow> nat \<Rightarrow> real" where
  "mm_to_inches env val_mm decimals = py_round env (float_mul env val_mm 0.0393701) decimals"

definition size_mb :: "nat \<Rightarrow> real" where
  "size_mb n = real n / (1024 * 1024)"

definition allowed_mimes :: "string list" where
  "allowed_mimes = [''application/dxf'', ''application/octet-stream'', ''text/plain'']"

definition insunits :: "'e dxf_doc \<Rightarrow> int" where
  "insunits d = (case header d ''$INSUNITS'' of None \<Rightarrow> 0 | Some v \<Rightarrow> v)"

text \<open>
  The unit detection: \<open>units_detected\<close> and \<open>scaling_factor\<close> start as
  \<^verbatim>\<open>"unknown"\<close> and \<^verbatim>\<open>1.0\<close>; 4 is millimetres, 1 is inches.
\<close>

definition detect_units :: "int \<Rightarrow> string \<times> real" where
  "detect_units units =
     (if units = 4 then (''mm'', 0.03937)
      else if units = 1 then (''inch'', 1.0)
      else (''unknown'', 1.0))"

text \<open>
  \<^verbatim>\<open>for e in msp: try: e.scale_uniform(scaling_factor) except Exception: continue\<close>.
  An entity whose \<^verbatim>\<open>scale_uniform\<close> raises stays as it was.
\<close>

fun scale_all :: "'e env \<Rightarrow> real \<Rightarrow> 'e list \<Rightarrow> 'e st \<Rightarrow> 'e list \<times> 'e st" where
  "scale_all env f [] s = ([], s)"
| "scale_all env f (e # es) s =
     (case step (scale_uniform_call f e) (scale_uniform env f e) s of
        (Inl _, s1) \<Rightarrow> (case scale_all env f es s1 of (es', s2) \<Rightarrow> (e # es', s2))
      | (Inr e', s1) \<Rightarrow> (case scale_all env f es s1 of (es', s2) \<Rightarrow> (e' # es', s2)))"

text \<open>
  \<^verbatim>\<open>with tempfile.NamedTemporaryFile(delete=False, suffix=suffix) as tmp:
      tmp.write(...); tmp_path = tmp.name\<close>.
  The file exists from its creation on; \<open>tmp_path\<close> is assigned only after the write.
\<close>

definition write_upload :: "'e env \<Rightarrow> string \<Rightarrow> string \<Rightarrow> 'e st \<Rightarrow> (exn + string) \<times> 'e st" where
  "write_upload env suffix bytes =
     then_do (step (NamedTemporaryFile_call suffix) (upload_tmp_stem env)) (\<lambda>stem s.
       let p = stem @ suffix;
           s1 = s\<lparr>fs := (fs s)(p \<mapsto> [])\<rparr>
       in then_do (step (tmp_write_call p) (tmp_write env bytes)) (\<lambda>_ s2.
            return p (s2\<lparr>fs := (fs s2)(p \<mapsto> bytes), tmp_path := Some p\<rparr>)) s1)"

text \<open>
  The DXF branch (\<^verbatim>\<open>main_freecad.py\<close> lines 117 to 142, \<^verbatim>\<open>main.py\<close> lines 55 to 87). The
  two files differ only in the import call, passed as \<open>imp_call\<close> and \<open>imp\<close>. It returns
  \<open>(parsed_layers, parsed_notes, units_detected, obj)\<close>.
\<close>

definition dxf_branch ::
  "'e env \<Rightarrow> (string \<Rightarrow> 'e call) \<Rightarrow> (string \<Rightarrow> exn + obj list) \<Rightarrow> string \<Rightarrow> 'e st
     \<Rightarrow> (exn + (string list \<times> string list \<times> string \<times> obj)) \<times> 'e st"
where
  "dxf_branch env imp_call imp p =
     then_do (\<lambda>s. step (ezdxf_readfile_call p)
                (case read_file s p of Inl e \<Rightarrow> Inl e | Inr c \<Rightarrow> ezdxf_readfile env c) s)
       (\<lambda>dxf_doc s.
          let units = insunits dxf_doc;
              units_detected = fst (detect_units units);
              scaling_factor = snd (detect_units units);
              parsed_layers = layers dxf_doc;
              parsed_notes = text_entities dxf_doc;
              scaled = (if scaling_factor \<noteq> 1.0
                        then scale_all env scaling_factor (modelspace dxf_doc) s
                        else (modelspace dxf_doc, s));
              ascii_path = p @ ''_ascii.dxf''
          in then_do (step (saveas_call ascii_path)
                        (saveas env (dxf_doc\<lparr>modelspace := fst scaled\<rparr>)))
               (\<lambda>text s1.
                  then_do (step (imp_call ascii_path) (imp text))
                    (\<lambda>objs.
                       then_do (step Objects_last_call
                                  (case objs of [] \<Rightarrow> Inl (Exn ''list index out of range'')
                                   | _ \<Rightarrow> Inr (last objs)))
                         (\<lambda>obj. return (parsed_layers, parsed_notes, units_detected, obj)))
                    (s1\<lparr>fs := (fs s1)(ascii_path \<mapsto> text), tmp_path := Some ascii_path\<rparr>))
               (snd scaled))"

text \<open>
  The other branch: \<^verbatim>\<open>shape = Part.read(tmp_path); obj = doc.addObject(...);
  obj.Shape = shape\<close>.
\<close>

definition part_branch ::
  "'e env \<Rightarrow> string \<Rightarrow> 'e st \<Rightarrow> (exn + (string list \<times> string list \<times> string \<times> obj)) \<times> 'e st"
where
  "part_branch env p =
     then_do (\<lambda>s. step (Part_read_call p)
                (case read_file s p of Inl e \<Rightarrow> Inl e | Inr c \<Rightarrow> Part_read env c) s)
       (\<lambda>shape. return ([], [], ''unknown'', \<lparr>truthy = True, Shape_BoundBox = Inr shape\<rparr>))"

text \<open>
  From \<^verbatim>\<open>doc = FreeCAD.newDocument()\<close> to the first \<^verbatim>\<open>doc.recompute()\<close>: the format
  dispatcher.
\<close>

definition import_shape ::
  "'e env \<Rightarrow> (string \<Rightarrow> 'e call) \<Rightarrow> (string \<Rightarrow> exn + obj list) \<Rightarrow> string \<Rightarrow> string \<Rightarrow> 'e st
     \<Rightarrow> (exn + (string list \<times> string list \<times> string \<times> obj)) \<times> 'e st"
where
  "import_shape env imp_call imp suffix p =
     then_do (step newDocument_call (newDocument env)) (\<lambda>_.
     then_do (if suffix = ''.dxf'' then dxf_branch env imp_call imp p else part_branch env p)
       (\<lambda>r.
     then_do (step recompute_call (recompute env 0)) (\<lambda>_. return r)))"

text \<open>
  The unfolding block: \<^verbatim>\<open>makeUnfold\<close>, \<^verbatim>\<open>recompute\<close>, the bounding box of the flat
  shape, the export to a fresh temporary file and reading that file back. It returns the
  flat bounding box and the DXF text.
\<close>

definition make_flat ::
  "'e env \<Rightarrow> (obj \<Rightarrow> exn + obj) \<Rightarrow> obj \<Rightarrow> 'e st \<Rightarrow> (exn + (bound_box \<times> string)) \<times> 'e st"
where
  "make_flat env makeUnfold ob =
     then_do (step (makeUnfold_call ob) (makeUnfold ob)) (\<lambda>flat_obj.
     then_do (step recompute_call (recompute env 1)) (\<lambda>_.
     then_do (step (BoundBox_call flat_obj) (Shape_BoundBox flat_obj)) (\<lambda>flat_bb.
     then_do (step (NamedTemporaryFile_call ''.dxf'') (flat_tmp_stem env)) (\<lambda>stem s.
       let flat = stem @ ''.dxf''
       in then_do (step (Import_export_call flat_obj flat) (Import_export env flat_obj))
            (\<lambda>text s1.
               then_do (\<lambda>s2. step (read_text_call flat) (read_file s2 flat) s2)
                 (\<lambda>dxf_data. return (flat_bb, dxf_data))
                 (s1\<lparr>fs := (fs s1)(flat \<mapsto> text)\<rparr>))
            (s\<lparr>fs := (fs s)(flat \<mapsto> []), flat_dxf_path := Some flat\<rparr>)))))"

text \<open>
  The \<^verbatim>\<open>finally\<close> block: \<^verbatim>\<open>if tmp_path and os.path.exists(tmp_path): os.remove(tmp_path)\<close>,
  then the same for \<open>flat_dxf_path\<close>. It lies outside every \<^verbatim>\<open>except\<close> clause: when
  \<^verbatim>\<open>os.remove\<close> raises, the second removal is skipped and the exception leaves the
  handler.
\<close>

definition remove_if_exists :: "'e env \<Rightarrow> string option \<Rightarrow> 'e st \<Rightarrow> (exn + unit) \<times> 'e st" where
  "remove_if_exists env v s =
     (case v of
        None \<Rightarrow> (Inr (), s)
      | Some p \<Rightarrow>
          if p \<noteq> [] \<and> fs s p \<noteq> None then
            then_do (step (os_remove_call p) (os_remove env p))
              (\<lambda>_ s1. return () (s1\<lparr>fs := (fs s1)(p := None)\<rparr>)) s
          else (Inr (), s))"

definition cleanup :: "'e env \<Rightarrow> 'e st \<Rightarrow> (exn + unit) \<times> 'e st" where
  "cleanup env =
     then_do (\<lambda>s. remove_if_exists env (tmp_path s) s)
       (\<lambda>_ s. remove_if_exists env (flat_dxf_path s) s)"

text \<open>
  \<^verbatim>\<open>try: ... return a / except Exception: return b / finally: ...\<close>: the response computed
  by the body or by the handler of the exception is returned after the \<^verbatim>\<open>finally\<close> block,
  unless that block raises.
\<close>

definition run_finally :: "'e env \<Rightarrow> response \<Rightarrow> 'e st \<Rightarrow> (exn + response) \<times> 'e st" where
  "run_finally env resp = then_do (cleanup env) (\<lambda>_. return resp)"

definition init_st :: "(string \<rightharpoonup> string) \<Rightarrow> 'e st" where
  "init_st fs0 = \<lparr>fs = fs0, trace = [], tmp_path = None, flat_dxf_path = None\<rparr>"

definition error_response :: "nat \<Rightarrow> string \<Rightarrow> string \<Rightarrow> response" where
  "error_response code msg details =
     \<lparr>status_code = code, content = JObj [(''error'', JStr msg), (''details'', JStr details)]\<rparr>"

definition json_opt_str :: "string option \<Rightarrow> json" where
  "json_opt_str v = (case v of None \<Rightarrow> JNull | Some x \<Rightarrow> JStr x)"

section \<open>The handler of main\_freecad.py\<close>

text \<open>The loop over the notes (lines 179 to 187): later notes overwrite earlier ones.\<close>

fun scrape_notes ::
  "'e env \<Rightarrow> string list \<Rightarrow> string option \<times> string option \<times> string option
     \<Rightarrow> string option \<times> string option \<times> string option"
where
  "scrape_notes env [] acc = acc"
| "scrape_notes env (note # notes) (customer_name, part_number, part_description) =
     (let note_lower = str_lower env note;
          v = str_strip env (after_last CHR '':'' note)
      in scrape_notes env notes
           (if str_contains ''customer'' note_lower
              then (Some v, part_number, part_description)
            else if str_contains ''part'' note_lower \<and> str_contains ''no'' note_lower
              then (customer_name, Some v, part_description)
            else if str_contains ''desc'' note_lower
              then (customer_name, part_number, Some v)
            else (customer_name, part_number, part_description)))"

definition main_freecad_success ::
  "'e env \<Rightarrow> json \<Rightarrow> json \<Rightarrow> json \<Rightarrow> string list \<Rightarrow> string list \<Rightarrow> string \<Rightarrow> bound_box
     \<Rightarrow> response"
where
  "main_freecad_success env flat_result flat_pattern_in dxf_data parsed_layers parsed_notes
       units_detected bbox =
     (let thickness_mm = ZLength bbox;
          thickness_in = mm_to_inches env thickness_mm 3;
          scraped = scrape_notes env parsed_notes (None, None, None)
      in \<lparr>status_code = 200,
          content = JObj
            [(''flat_pattern'', flat_result),
             (''flat_pattern_in'', flat_pattern_in),
             (''thickness_mm'', JNum thickness_mm),
             (''thickness_in'', JNum thickness_in),
             (''parsed_layers'', JList (map JStr parsed_layers)),
             (''parsed_notes'', JList (map JStr parsed_notes)),
             (''dxf_units'', JStr units_detected),
             (''customer_name'', json_opt_str (fst scraped)),
             (''part_number'', json_opt_str (fst (snd scraped))),
             (''part_description'', json_opt_str (snd (snd scraped))),
             (''flat_dxf'', dxf_data)]\<rparr>)"

text \<open>Lines 175 to 201: the bounding box of the imported object and the response.\<close>

definition main_freecad_finish ::
  "'e env \<Rightarrow> json \<Rightarrow> json \<Rightarrow> json \<Rightarrow> string list \<Rightarrow> string list \<Rightarrow> string \<Rightarrow> obj \<Rightarrow> 'e st
     \<Rightarrow> (exn + response) \<times> 'e st"
where
  "main_freecad_finish env flat_result flat_pattern_in dxf_data parsed_layers parsed_notes
       units_detected ob =
     then_do (step (BoundBox_call ob) (Shape_BoundBox ob)) (\<lambda>bbox.
       return (main_freecad_success env flat_result flat_pattern_in dxf_data parsed_layers
                 parsed_notes units_detected bbox))"

text \<open>
  Lines 150 to 173: the unfolding block sits in its own \<^verbatim>\<open>try\<close>; its handler returns a
  500 response from inside the outer \<^verbatim>\<open>try\<close>.
\<close>

definition main_freecad_unfolding ::
  "'e env \<Rightarrow> string list \<Rightarrow> string list \<Rightarrow> string \<Rightarrow> obj \<Rightarrow> 'e st \<Rightarrow> (exn + response) \<times> 'e st"
where
  "main_freecad_unfolding env parsed_layers parsed_notes units_detected ob s =
     (case SheetMetalUnfolder env of
        None \<Rightarrow>
          main_freecad_finish env JNull JNull JNull parsed_layers parsed_notes units_detected ob s
      | Some makeUnfold \<Rightarrow>
          if truthy ob then
            (case make_flat env makeUnfold ob s of
               (Inl e, s1) \<Rightarrow> (Inr (error_response 500 ''Unfolding failed'' (str e)), s1)
             | (Inr (flat_bb, dxf_data), s1) \<Rightarrow>
                 main_freecad_finish env
                   (JObj [(''flat_x_mm'', JNum (XLength flat_bb)),
                          (''flat_y_mm'', JNum (YLength flat_bb))])
                   (JObj [(''flat_x_in'', JNum (mm_to_inches env (XLength flat_bb) 3)),
                          (''flat_y_in'', JNum (mm_to_inches env (YLength flat_bb) 3))])
                   (JStr dxf_data) parsed_layers parsed_notes units_detected ob s1)
          else
            main_freecad_finish env JNull JNull JNull parsed_layers parsed_notes units_detected ob s)"

definition main_freecad_unfold_body :: "'e env \<Rightarrow> upload \<Rightarrow> 'e st \<Rightarrow> (exn + response) \<times> 'e st" where
  "main_freecad_unfold_body env file s =
     (if 2 < size_mb (length (up_bytes file)) then
        (Inr \<lparr>status_code = 413, content = JObj [(''error'', JStr ''File too large. Max 2MB'')]\<rparr>, s)
      else
        then_do (step (magic_from_buffer_call (take 2048 (up_bytes file)))
                   (magic_from_buffer env (take 2048 (up_bytes file))))
          (\<lambda>mime.
             if mime \<notin> set allowed_mimes then
               return \<lparr>status_code = 415,
                       content = JObj [(''error'', JStr ''Unsupported file type''),
                                       (''detected_mime'', JStr mime)]\<rparr>
             else
               then_do (write_upload env (file_suffix env file) (up_bytes file)) (\<lambda>p.
               then_do (import_shape env Import_insert_call (Import_insert env)
                          (file_suffix env file) p)
                 (\<lambda>(parsed_layers, parsed_notes, units_detected, ob).
                    main_freecad_unfolding env parsed_layers parsed_notes units_detected ob)))
          s)"

text \<open>
  The whole handler: the body, \<^verbatim>\<open>except Exception\<close> (lines 203 to 206) and
  \<^verbatim>\<open>finally\<close> (lines 207 to 211). It returns the response, or the exception that
  leaves the handler, and the final state.
\<close>

definition main_freecad_unfold ::
  "'e env \<Rightarrow> upload \<Rightarrow> (string \<rightharpoonup> string) \<Rightarrow> (exn + response) \<times> 'e st"
where
  "main_freecad_unfold env file fs0 =
     (case main_freecad_unfold_body env file (init_st fs0) of
        (Inl e, s) \<Rightarrow> run_finally env (error_response 500 ''Request failed'' (str e)) s
      | (Inr resp, s) \<Rightarrow> run_finally env resp s)"

section \<open>The handler of main.py\<close>

definition main_success ::
  "json \<Rightarrow> json \<Rightarrow> string list \<Rightarrow> string list \<Rightarrow> string \<Rightarrow> bound_box \<Rightarrow> response"
where
  "main_success flat_result dxf_data parsed_layers parsed_notes units_detected bbox =
     \<lparr>status_code = 200,
      content = JObj
        [(''bounding_box_mm'',
            JObj [(''x'', JNum (XLength bbox)), (''y'', JNum (YLength bbox)),
                  (''z'', JNum (ZLength bbox))]),
         (''flat_pattern'', flat_result),
         (''flat_dxf'', dxf_data),
         (''parsed_layers'', JList (map JStr parsed_layers)),
         (''parsed_notes'', JList (map JStr parsed_notes)),
         (''dxf_units'', JStr units_detected)]\<rparr>"

definition main_finish ::
  "json \<Rightarrow> json \<Rightarrow> string list \<Rightarrow> string list \<Rightarrow> string \<Rightarrow> obj \<Rightarrow> 'e st
     \<Rightarrow> (exn + response) \<times> 'e st"
where
  "main_finish flat_result dxf_data parsed_layers parsed_notes units_detected ob =
     then_do (step (BoundBox_call ob) (Shape_BoundBox ob)) (\<lambda>bbox.
       return (main_success flat_result dxf_data parsed_layers parsed_notes units_detected bbox))"

text \<open>Lines 96 to 112: here the unfolding block has no \<^verbatim>\<open>try\<close> of its own.\<close>

definition main_unfolding ::
  "'e env \<Rightarrow> string list \<Rightarrow> string list \<Rightarrow> string \<Rightarrow> obj \<Rightarrow> 'e st \<Rightarrow> (exn + response) \<times> 'e st"
where
  "main_unfolding env parsed_layers parsed_notes units_detected ob s =
     (case SheetMetalUnfolder env of
        None \<Rightarrow> main_finish JNull JNull parsed_layers parsed_notes units_detected ob s
      | Some makeUnfold \<Rightarrow>
          if truthy ob then
            then_do (make_flat env makeUnfold ob)
              (\<lambda>(flat_bb, dxf_data).
                 main_finish
                   (JObj [(''flat_x_mm'', JNum (XLength flat_bb)),
                          (''flat_y_mm'', JNum (YLength flat_bb))])
                   (JStr dxf_data) parsed_layers parsed_notes units_detected ob) s
          else main_finish JNull JNull parsed_layers parsed_notes units_detected ob s)"

definition main_unfold_body :: "'e env \<Rightarrow> upload \<Rightarrow> 'e st \<Rightarrow> (exn + response) \<times> 'e st" where
  "main_unfold_body env file =
     then_do (write_upload env (file_suffix env file) (up_bytes file)) (\<lambda>p.
     then_do (import_shape env Import_importDXF_call (Import_importDXF env) (file_suffix env file) p)
       (\<lambda>(parsed_layers, parsed_notes, units_detected, ob).
          main_unfolding env parsed_layers parsed_notes units_detected ob))"

definition main_unfold ::
  "'e env \<Rightarrow> upload \<Rightarrow> (string \<rightharpoonup> string) \<Rightarrow> (exn + response) \<times> 'e st"
where
  "main_unfold env file fs0 =
     (case main_unfold_body env file (init_st fs0) of
        (Inl e, s) \<Rightarrow> run_finally env (error_response 500 ''Unfolding failed'' (format_exc env e)) s
      | (Inr resp, s) \<Rightarrow> run_finally env resp s)"

section \<open>Reading responses and traces\<close>

definition json_get :: "json \<Rightarrow> string \<Rightarrow> json option" where
  "json_get j k = (case j of JObj kvs \<Rightarrow> map_of kvs k | _ \<Rightarrow> None)"

definition json_keys :: "json \<Rightarrow> string list" where
  "json_keys j = (case j of JObj kvs \<Rightarrow> map fst kvs | _ \<Rightarrow> [])"

text \<open>
  What a handler run gave back: the status and a field of the response, \<open>None\<close> when an
  exception left the handler.
\<close>

definition returned_status :: "exn + response \<Rightarrow> nat option" where
  "returned_status r = (case r of Inl _ \<Rightarrow> None | Inr resp \<Rightarrow> Some (status_code resp))"

definition returned_field :: "exn + response \<Rightarrow> string \<Rightarrow> json option" where
  "returned_field r k = (case r of Inl _ \<Rightarrow> None | Inr resp \<Rightarrow> json_get (content resp) k)"

fun is_scale_call :: "'e call \<Rightarrow> bool" where
  "is_scale_call (scale_uniform_call f e) = True"
| "is_scale_call _ = False"

fun is_remove_call :: "'e call \<Rightarrow> bool" where
  "is_remove_call (os_remove_call p) = True"
| "is_remove_call _ = False"

text \<open>The calls into the DXF text parser.\<close>

fun is_dxf_call :: "'e call \<Rightarrow> bool" where
  "is_dxf_call (ezdxf_readfile_call p) = True"
| "is_dxf_call (scale_uniform_call f e) = True"
| "is_dxf_call (saveas_call p) = True"
| "is_dxf_call _ = False"

text \<open>The \<^verbatim>\<open>scale_uniform\<close> calls of a trace, in order: factor, entity, outcome.\<close>

fun scale_calls :: "('e call \<times> exn option) list \<Rightarrow> (real \<times> 'e \<times> exn option) list" where
  "scale_calls [] = []"
| "scale_calls ((scale_uniform_call f e, r) # evs) = (f, e, r) # scale_calls evs"
| "scale_calls (_ # evs) = scale_calls evs"

text \<open>
  A trace is clean when no call in it raised, \<^verbatim>\<open>scale_uniform\<close> calls apart (their
  exceptions are swallowed by the loop). \<open>raised_last tr e\<close>: the last call of the trace
  raised \<open>e\<close>, it is no \<^verbatim>\<open>scale_uniform\<close> call, and the trace before it is clean.
\<close>

definition clean :: "('e call \<times> exn option) list \<Rightarrow> bool" where
  "clean tr = list_all (\<lambda>ev. snd ev = None \<or> is_scale_call (fst ev)) tr"

definition raised_last :: "('e call \<times> exn option) list \<Rightarrow> exn \<Rightarrow> bool" where
  "raised_last tr e =
     (tr \<noteq> [] \<and> snd (last tr) = Some e \<and> \<not> is_scale_call (fst (last tr)) \<and> clean (butlast tr))"

text \<open>
  The new calls \<open>new\<close> of a block fit its result \<open>r\<close>: a block that returned has a
  clean trace, a block that raised \<open>e\<close> ends with the call that raised \<open>e\<close>.
\<close>

definition disc :: "('e call \<times> exn option) list \<Rightarrow> exn + 'a \<Rightarrow> bool" where
  "disc new r = (case r of Inl e \<Rightarrow> raised_last new e | Inr _ \<Rightarrow> clean new)"

text \<open>No call into the DXF text parser.\<close>

definition dxf_free :: "('e call \<times> exn option) list \<Rightarrow> bool" where
  "dxf_free tr = list_all (\<lambda>ev. \<not> is_dxf_call (fst ev)) tr"

text \<open>Only calls of the \<^verbatim>\<open>finally\<close> block.\<close>

definition only_removes :: "('e call \<times> exn option) list \<Rightarrow> bool" where
  "only_removes tr = list_all (\<lambda>ev. is_remove_call (fst ev)) tr"

text \<open>
  The \<^verbatim>\<open>scale_uniform\<close> calls that the loop over the modelspace of \<open>d\<close> makes: none when
  the scaling factor is \<^verbatim>\<open>1.0\<close>, else one per entity, in order, with its outcome.
\<close>

definition scaled_calls :: "'e env \<Rightarrow> 'e dxf_doc \<Rightarrow> (real \<times> 'e \<times> exn option) list" where
  "scaled_calls env d =
     (if snd (detect_units (insunits d)) \<noteq> 1
      then map (\<lambda>e. (snd (detect_units (insunits d)), e,
                     outcome (scale_uniform env (snd (detect_units (insunits d))) e)))
             (modelspace d)
      else [])"

text \<open>
  The same for a handler body, whose result is a response: either nothing raised and the
  status is not 500, or the unfolding block raised \<open>e\<close> and its own handler answered.
\<close>

definition resp_disc :: "('e call \<times> exn option) list \<Rightarrow> exn + response \<Rightarrow> bool" where
  "resp_disc new r =
     (case r of
        Inl e \<Rightarrow> raised_last new e
      | Inr resp \<Rightarrow>
          clean new \<and> status_code resp \<noteq> 500
          \<or> (\<exists>e. raised_last new e \<and> resp = error_response 500 ''Unfolding failed'' (str e)))"

text \<open>
  What the trace of a request that got past validation says about the dispatcher: a file
  that is no \<^verbatim>\<open>.dxf\<close> never reaches the DXF parser and, once the temporary file is written
  and the document created, \<^verbatim>\<open>Part.read\<close> is called on the temporary file and answers as
  on the uploaded bytes; a \<^verbatim>\<open>.dxf\<close> file that the parser reads as \<open>d\<close> gets exactly the
  \<^verbatim>\<open>scale_uniform\<close> calls of \<open>scaled_calls\<close>.
\<close>

definition dispatch_facts ::
  "'e env \<Rightarrow> string \<Rightarrow> string \<Rightarrow> ('e call \<times> exn option) list \<Rightarrow> bool"
where
  "dispatch_facts env suffix bytes new =
     ((suffix \<noteq> ''.dxf'' \<longrightarrow>
         dxf_free new
         \<and> (\<forall>stem. upload_tmp_stem env = Inr stem \<longrightarrow> tmp_write env bytes = Inr () \<longrightarrow>
               newDocument env = Inr () \<longrightarrow>
               (Part_read_call (stem @ suffix), outcome (Part_read env bytes)) \<in> set new))
      \<and> (suffix = ''.dxf'' \<longrightarrow>
           (\<forall>d. ezdxf_readfile env bytes = Inr d \<longrightarrow>
              scale_calls new =
                (if \<exists>q. (ezdxf_readfile_call q, None) \<in> set new then scaled_calls env d
                 else []))))"

text \<open>The upload passes the size check and the MIME check of \<^verbatim>\<open>main_freecad.py\<close>.\<close>

definition accepted :: "'e env \<Rightarrow> upload \<Rightarrow> bool" where
  "accepted env file =
     (\<not> 2 < size_mb (length (up_bytes file))
      \<and> (case magic_from_buffer env (take 2048 (up_bytes file)) of
           Inl _ \<Rightarrow> False
         | Inr mime \<Rightarrow> mime \<in> set allowed_mimes))"

section \<open>The expected content of a successful response\<close>

text \<open>
  The values that a successful response is expected to carry, written as plain functions
  of the uploaded bytes and of the libraries' answers, without state, trace or exceptions.
  They are the reference against which the handlers are compared.
\<close>

text \<open>
  The document that is saved for the kernel: with \<^verbatim>\<open>$INSUNITS = 4\<close> every entity that
  \<^verbatim>\<open>scale_uniform(0.03937)\<close> accepts is replaced by its scaled version.
\<close>

definition rescaled :: "'e env \<Rightarrow> 'e dxf_doc \<Rightarrow> 'e dxf_doc" where
  "rescaled env d =
     (if insunits d = 4
      then d\<lparr>modelspace :=
               map (\<lambda>e. case scale_uniform env 0.03937 e of Inl _ \<Rightarrow> e | Inr e' \<Rightarrow> e')
                 (modelspace d)\<rparr>
      else d)"

text \<open>The calls that the scaling loop logs on the way.\<close>

definition scale_events :: "'e env \<Rightarrow> 'e dxf_doc \<Rightarrow> ('e call \<times> exn option) list" where
  "scale_events env d =
     (if insunits d = 4
      then map (\<lambda>e. (scale_uniform_call 0.03937 e, outcome (scale_uniform env 0.03937 e)))
             (modelspace d)
      else [])"

definition expected_units :: "int \<Rightarrow> string" where
  "expected_units u = (if u = 4 then ''mm'' else if u = 1 then ''inch'' else ''unknown'')"

text \<open>
  The imported object with the parsed layers, notes and units: for a \<^verbatim>\<open>.dxf\<close> file the
  last object that the kernel imports from the saved document, for any other file the
  shape that \<^verbatim>\<open>Part.read\<close> reads from the uploaded bytes.
\<close>

definition expected_import ::
  "'e env \<Rightarrow> (string \<Rightarrow> exn + obj list) \<Rightarrow> string \<Rightarrow> string
     \<Rightarrow> (string list \<times> string list \<times> string \<times> obj) option"
where
  "expected_import env imp suffix bytes =
     (if suffix = ''.dxf'' then
        (case ezdxf_readfile env bytes of
           Inl _ \<Rightarrow> None
         | Inr d \<Rightarrow>
             (case saveas env (rescaled env d) of
                Inl _ \<Rightarrow> None
              | Inr text \<Rightarrow>
                  (case imp text of
                     Inl _ \<Rightarrow> None
                   | Inr objs \<Rightarrow>
                       if objs = [] then None
                       else Some (layers d, text_entities d, expected_units (insunits d),
                                  last objs))))
      else
        (case Part_read env bytes of
           Inl _ \<Rightarrow> None
         | Inr shape \<Rightarrow> Some ([], [], ''unknown'', \<lparr>truthy = True, Shape_BoundBox = Inr shape\<rparr>)))"

definition expected_inches :: "'e env \<Rightarrow> real \<Rightarrow> real" where
  "expected_inches env mm = py_round env (float_mul env mm 0.0393701) 3"

text \<open>
  The flat pattern in millimetres, in inches and as DXF text: all null without an
  unfolder (or for an object that is not true), else the bounding box of the unfolded
  object and the text that the kernel exports for it.
\<close>

definition expected_flat :: "'e env \<Rightarrow> obj \<Rightarrow> (json \<times> json \<times> json) option" where
  "expected_flat env ob =
     (case SheetMetalUnfolder env of
        None \<Rightarrow> Some (JNull, JNull, JNull)
      | Some makeUnfold \<Rightarrow>
          if \<not> truthy ob then Some (JNull, JNull, JNull)
          else
            (case makeUnfold ob of
               Inl _ \<Rightarrow> None
             | Inr flat_obj \<Rightarrow>
                 (case Shape_BoundBox flat_obj of
                    Inl _ \<Rightarrow> None
                  | Inr flat_bb \<Rightarrow>
                      (case Import_export env flat_obj of
                         Inl _ \<Rightarrow> None
                       | Inr text \<Rightarrow>
                           Some (JObj [(''flat_x_mm'', JNum (XLength flat_bb)),
                                       (''flat_y_mm'', JNum (YLength flat_bb))],
                                 JObj [(''flat_x_in'', JNum (expected_inches env (XLength flat_bb))),
                                       (''flat_y_in'', JNum (expected_inches env (YLength flat_bb)))],
                                 JStr text)))))"

text \<open>
  The scraped fields: the customer is taken from the last note that mentions
  \<^verbatim>\<open>customer\<close>; the part number from the last note that mentions \<^verbatim>\<open>part\<close> and \<^verbatim>\<open>no\<close> but
  not \<^verbatim>\<open>customer\<close>; the description from the last note that mentions \<^verbatim>\<open>desc\<close> and is
  neither of the former. The value is what follows the last colon, stripped.
\<close>

definition last_note :: "(string \<Rightarrow> bool) \<Rightarrow> string list \<Rightarrow> string option" where
  "last_note P notes = (case filter P notes of [] \<Rightarrow> None | n # ns \<Rightarrow> Some (last (n # ns)))"








section \<open>Concrete requests\<close>

text \<open>
  Example answers of the interpreter for ASCII strings and for decimals that are computed
  exactly: lower-casing of the letters A to Z, stripping of ASCII whitespace, the exact
  product, and rounding to a number of decimals with ties to even.
\<close>

definition ascii_lower :: "string \<Rightarrow> string" where
  "ascii_lower s =
     map (\<lambda>c. case map_of (zip ''ABCDEFGHIJKLMNOPQRSTUVWXYZ'' ''abcdefghijklmnopqrstuvwxyz'') c of
                None \<Rightarrow> c
              | Some l \<Rightarrow> l) s"

definition ascii_space :: "char \<Rightarrow> bool" where
  "ascii_space c = (c \<in> set [CHR '' '', CHR 0x09, CHR 0x0A, CHR 0x0B, CHR 0x0C, CHR 0x0D])"

definition ascii_strip :: "string \<Rightarrow> string" where
  "ascii_strip s = rev (dropWhile ascii_space (rev (dropWhile ascii_space s)))"

definition decimal_round :: "real \<Rightarrow> nat \<Rightarrow> real" where
  "decimal_round x decimals =
     (let y = x * 10 ^ decimals; f = \<lfloor>y\<rfloor>; d = y - of_int f;
          r = (if d < 1 / 2 then f else if 1 / 2 < d then f + 1 else if even f then f else f + 1)
      in of_int r / 10 ^ decimals)"

datatype ex_entity = Point real | Unsupported

fun ex_scale :: "real \<Rightarrow> ex_entity \<Rightarrow> exn + ex_entity" where
  "ex_scale f (Point x) = Inr (Point (f * x))"
| "ex_scale f Unsupported = Inl (Exn ''NotImplementedError'')"

definition ex_obj :: obj where
  "ex_obj = \<lparr>truthy = True, Shape_BoundBox = Inr \<lparr>XLength = 100, YLength = 50, ZLength = 2\<rparr>\<rparr>"

definition ex_flat_obj :: obj where
  "ex_flat_obj = \<lparr>truthy = True, Shape_BoundBox = Inr \<lparr>XLength = 120, YLength = 50, ZLength = 2\<rparr>\<rparr>"

definition ex_doc :: "int option \<Rightarrow> ex_entity list \<Rightarrow> ex_entity dxf_doc" where
  "ex_doc units msp =
     \<lparr>header = (case units of None \<Rightarrow> Map.empty | Some v \<Rightarrow> [''$INSUNITS'' \<mapsto> v]),
      layers = [''0'', ''BEND''],
      text_entities = [''Customer: ACME'', ''Part No: 4711'', ''Desc: bracket ''],
      modelspace = msp\<rparr>"

text \<open>
  Libraries that read the two example uploads and nothing else: \<^verbatim>\<open>ezdxf.readfile\<close>
  accepts only the bytes of the DXF upload, \<^verbatim>\<open>Part.read\<close> only those of the STEP upload,
  the import only the saved text, the unfolder only the imported object, the export only
  the unfolded object.
\<close>

definition ex_env :: "(obj \<Rightarrow> exn + obj) option \<Rightarrow> ex_entity dxf_doc \<Rightarrow> ex_entity env" where
  "ex_env unfolder d =
     \<lparr>SheetMetalUnfolder = unfolder,
      magic_from_buffer = (\<lambda>_. Inr ''text/plain''),
      upload_tmp_stem = Inr ''/tmp/tmpk3v9'',
      flat_tmp_stem = Inr ''/tmp/tmpq7w2'',
      tmp_write = (\<lambda>_. Inr ()),
      newDocument = Inr (),
      ezdxf_readfile = (\<lambda>c. if c = ''0 SECTION'' then Inr d else Inl (Exn ''DXFStructureError'')),
      scale_uniform = ex_scale,
      saveas = (\<lambda>_. Inr ''0 SECTION ascii''),
      Import_insert =
        (\<lambda>t. if t = ''0 SECTION ascii'' then Inr [ex_obj] else Inl (Exn ''Cannot import'')),
      Import_importDXF =
        (\<lambda>t. if t = ''0 SECTION ascii'' then Inr [ex_obj] else Inl (Exn ''Cannot import'')),
      Part_read =
        (\<lambda>c. if c = ''ISO-10303-21;'' then Inr \<lparr>XLength = 100, YLength = 50, ZLength = 2\<rparr>
             else Inl (Exn ''Cannot read shape'')),
      recompute = (\<lambda>_. Inr ()),
      Import_export =
        (\<lambda>ob. if ob = ex_flat_obj then Inr ''0 SECTION flat'' else Inl (Exn ''Cannot export'')),
      format_exc = (\<lambda>e. ''Traceback (most recent call last): '' @ str e),
      os_remove = (\<lambda>_. Inr ()),
      str_lower = ascii_lower,
      str_strip = ascii_strip,
      float_mul = (\<lambda>x y. x * y),
      py_round = decimal_round\<rparr>"

definition ex_unfolder :: "(obj \<Rightarrow> exn + obj) option" where
  "ex_unfolder =
     Some (\<lambda>ob. if ob = ex_obj then Inr ex_flat_obj else Inl (Exn ''Cannot unfold''))"

definition ex_dxf_upload :: upload where
  "ex_dxf_upload = \<lparr>up_filename = ''bracket.DXF'', up_bytes = ''0 SECTION''\<rparr>"

definition ex_step_upload :: upload where
  "ex_step_upload = \<lparr>up_filename = ''bracket.step'', up_bytes = ''ISO-10303-21;''\<rparr>"

definition ex_broken_upload :: upload where
  "ex_broken_upload = \<lparr>up_filename = ''broken.step'', up_bytes = ''garbage''\<rparr>"

definition ex_big_upload :: upload where
  "ex_big_upload = \<lparr>up_filename = ''bracket.step'', up_bytes = replicate 2097153 CHR ''a''\<rparr>"

definition ex_plain_env :: "ex_entity env" where
  "ex_plain_env = ex_env ex_unfolder (ex_doc None [])"

definition ex_png_env :: "ex_entity env" where
  "ex_png_env = ex_plain_env\<lparr>magic_from_buffer := (\<lambda>_. Inr ''image/png'')\<rparr>"

definition ex_remove_fails_env :: "ex_entity env" where
  "ex_remove_fails_env = ex_plain_env\<lparr>os_remove := (\<lambda>_. Inl (Exn ''PermissionError''))\<rparr>"

definition ex_mm_env :: "ex_entity env" where
  "ex_mm_env = ex_env ex_unfolder (ex_doc (Some 4) [Point 1, Unsupported])"

definition ex_mm_points_env :: "ex_entity env" where
  "ex_mm_points_env = ex_env ex_unfolder (ex_doc (Some 4) [Point 1, Point 2])"

definition ex_inch_env :: "ex_entity env" where
  "ex_inch_env = ex_env ex_unfolder (ex_doc (Some 1) [Point 1, Point 2])"

definition ex_no_units_env :: "ex_entity env" where
  "ex_no_units_env = ex_env ex_unfolder (ex_doc None [Point 1])"

definition ex_no_unfolder_env :: "ex_entity env" where
  "ex_no_unfolder_env = ex_env None (ex_doc (Some 1) [Point 1])"

section \<open>Evaluation rules\<close>

lemmas run_defs =
  main_freecad_unfold_def main_freecad_unfold_body_def main_freecad_unfolding_def
  main_freecad_finish_def main_freecad_success_def main_unfold_def main_unfold_body_def
  main_unfolding_def main_finish_def main_success_def import_shape_def dxf_branch_def
  part_branch_def make_flat_def write_upload_def then_do_def return_def step_def outcome_def
  read_file_def cleanup_def remove_if_exists_def run_finally_def init_st_def error_response_def
  size_mb_def allowed_mimes_def insunits_def detect_units_def file_suffix_def splitext_ext_def
  after_last_def mm_to_inches_def json_opt_str_def Let_def

lemmas ex_defs =
  ex_env_def ex_doc_def ex_obj_def ex_flat_obj_def ex_unfolder_def ex_dxf_upload_def
  ex_step_upload_def ex_broken_upload_def ex_big_upload_def ex_plain_env_def ex_png_env_def
  ex_remove_fails_env_def ex_mm_env_def ex_mm_points_env_def ex_inch_env_def
  ex_no_units_env_def ex_no_unfolder_env_def ascii_lower_def ascii_strip_def ascii_space_def
  decimal_round_def

lemma size_mb_gt: "2 < size_mb n \<longleftrightarrow> 2097152 < n"
  by (simp add: size_mb_def field_simps)

section \<open>Traces of the blocks\<close>

lemma outcome_simps [simp]: "outcome (Inl e) = Some e" "outcome (Inr x) = None"
  by (simp_all add: outcome_def)

lemma scale_all_eq:
  "scale_all env f es s =
     (map (\<lambda>e. case scale_uniform env f e of Inl _ \<Rightarrow> e | Inr e' \<Rightarrow> e') es,
      s\<lparr>trace := trace s @ map (\<lambda>e. (scale_uniform_call f e, outcome (scale_uniform env f e))) es\<rparr>)"
  by (induction es arbitrary: s) (auto simp: step_def split: sum.splits)

lemma clean_simps [simp]:
  "clean []"
  "clean (xs @ ys) \<longleftrightarrow> clean xs \<and> clean ys"
  "clean (ev # xs) \<longleftrightarrow> (snd ev = None \<or> is_scale_call (fst ev)) \<and> clean xs"
  by (simp_all add: clean_def)

lemma clean_scale_map [simp]: "clean (map (\<lambda>e. (scale_uniform_call f e, g e)) es)"
  by (induction es) simp_all

lemma raised_last_Cons [simp]:
  "raised_last (ev # xs) e \<longleftrightarrow>
     (if xs = [] then snd ev = Some e \<and> \<not> is_scale_call (fst ev)
      else (snd ev = None \<or> is_scale_call (fst ev)) \<and> raised_last xs e)"
  by (auto simp: raised_last_def)

lemma raised_last_append [simp]:
  "raised_last (xs @ ys) e \<longleftrightarrow>
     (if ys = [] then raised_last xs e else clean xs \<and> raised_last ys e)"
  by (auto simp: raised_last_def butlast_append)

lemma raised_last_Nil [simp]: "\<not> raised_last [] e"
  by (simp add: raised_last_def)

lemma disc_simps [simp]:
  "disc new (Inl e) = raised_last new e"
  "disc new (Inr x) = clean new"
  by (simp_all add: disc_def)

lemma dxf_free_simps [simp]:
  "dxf_free []"
  "dxf_free (xs @ ys) \<longleftrightarrow> dxf_free xs \<and> dxf_free ys"
  "dxf_free (ev # xs) \<longleftrightarrow> \<not> is_dxf_call (fst ev) \<and> dxf_free xs"
  by (simp_all add: dxf_free_def)

lemma scale_calls_append [simp]: "scale_calls (xs @ ys) = scale_calls xs @ scale_calls ys"
  by (induction xs rule: scale_calls.induct) simp_all

lemma scale_calls_map [simp]:
  "scale_calls (map (\<lambda>e. (scale_uniform_call f e, g e)) es) = map (\<lambda>e. (f, e, g e)) es"
  by (induction es) simp_all

lemma scale_calls_other [simp]:
  "\<not> is_scale_call c \<Longrightarrow> scale_calls ((c, r) # evs) = scale_calls evs"
  by (cases c) simp_all

lemma dxf_free_scale_calls: "dxf_free tr \<Longrightarrow> scale_calls tr = []"
  by (induction tr rule: scale_calls.induct) simp_all

lemma dxf_free_no_readfile: "dxf_free tr \<Longrightarrow> (ezdxf_readfile_call q, r) \<notin> set tr"
  by (auto simp: dxf_free_def list_all_iff)

lemma mm_to_inches_expected: "mm_to_inches env v 3 = expected_inches env v"
  by (simp add: mm_to_inches_def expected_inches_def)

lemma detect_units_expected: "fst (detect_units u) = expected_units u"
  by (simp add: detect_units_def expected_units_def)

lemma scaling_loop_eq:
  "(if snd (detect_units (insunits d)) \<noteq> 1
    then scale_all env (snd (detect_units (insunits d))) (modelspace d) s
    else (modelspace d, s))
   = (modelspace (rescaled env d), s\<lparr>trace := trace s @ scale_events env d\<rparr>)"
  by (simp add: detect_units_def scale_all_eq rescaled_def scale_events_def)

lemma modelspace_rescaled [simp]: "d\<lparr>modelspace := modelspace (rescaled env d)\<rparr> = rescaled env d"
  by (simp add: rescaled_def)

lemma scale_calls_scale_events [simp]: "scale_calls (scale_events env d) = scaled_calls env d"
  by (simp add: scale_events_def scaled_calls_def detect_units_def)

lemma clean_scale_events [simp]: "clean (scale_events env d)"
  by (simp add: scale_events_def)

lemma write_upload_spec:
  "\<exists>new. trace (snd (write_upload env suffix bytes s)) = trace s @ new
     \<and> disc new (fst (write_upload env suffix bytes s)) \<and> dxf_free new
     \<and> (\<forall>p. fst (write_upload env suffix bytes s) = Inr p \<longrightarrow>
           fs (snd (write_upload env suffix bytes s)) p = Some bytes)
     \<and> (\<forall>stem. upload_tmp_stem env = Inr stem \<longrightarrow> tmp_write env bytes = Inr () \<longrightarrow>
           fst (write_upload env suffix bytes s) = Inr (stem @ suffix))"
  by (simp add: write_upload_def then_do_def step_def return_def Let_def split: sum.split prod.split)

lemma make_flat_spec:
  "\<exists>new. trace (snd (make_flat env mk ob s)) = trace s @ new
     \<and> disc new (fst (make_flat env mk ob s)) \<and> dxf_free new
     \<and> (\<forall>x. fst (make_flat env mk ob s) = Inr x \<longrightarrow>
           (\<exists>flat_obj. mk ob = Inr flat_obj \<and> Shape_BoundBox flat_obj = Inr (fst x)
              \<and> Import_export env flat_obj = Inr (snd x)))"
  by (simp add: make_flat_def then_do_def step_def return_def Let_def read_file_def
      split: sum.split prod.split option.split)

lemma part_branch_spec:
  assumes "fs s p = Some bytes"
  shows "trace (snd (part_branch env p s)) =
           trace s @ [(Part_read_call p, outcome (Part_read env bytes))]
     \<and> fst (part_branch env p s) =
         (case Part_read env bytes of
            Inl e \<Rightarrow> Inl e
          | Inr shape \<Rightarrow> Inr ([], [], ''unknown'', \<lparr>truthy = True, Shape_BoundBox = Inr shape\<rparr>))"
  using assms
  by (simp add: part_branch_def then_do_def step_def return_def read_file_def
      split: sum.split prod.split)

lemma dxf_branch_eq:
  "dxf_branch env ic imp p =
     then_do (\<lambda>s. step (ezdxf_readfile_call p)
                (case read_file s p of Inl e \<Rightarrow> Inl e | Inr c \<Rightarrow> ezdxf_readfile env c) s)
       (\<lambda>d s.
          then_do (step (saveas_call (p @ ''_ascii.dxf'')) (saveas env (rescaled env d)))
            (\<lambda>text s1.
               then_do (step (ic (p @ ''_ascii.dxf'')) (imp text))
                 (\<lambda>objs.
                    then_do (step Objects_last_call
                               (case objs of [] \<Rightarrow> Inl (Exn ''list index out of range'')
                                | _ \<Rightarrow> Inr (last objs)))
                      (\<lambda>ob. return (layers d, text_entities d, expected_units (insunits d), ob)))
                 (s1\<lparr>fs := (fs s1)(p @ ''_ascii.dxf'' \<mapsto> text),
                     tmp_path := Some (p @ ''_ascii.dxf'')\<rparr>))
            (s\<lparr>trace := trace s @ scale_events env d\<rparr>))"
  by (simp add: dxf_branch_def Let_def scaling_loop_eq detect_units_expected)

lemma dxf_branch_spec:
  assumes "fs s p = Some bytes" "\<And>q. \<not> is_scale_call (ic q)"
  shows "\<exists>new. trace (snd (dxf_branch env ic imp p s)) = trace s @ new
     \<and> disc new (fst (dxf_branch env ic imp p s))
     \<and> (\<forall>d. ezdxf_readfile env bytes = Inr d \<longrightarrow>
           scale_calls new = scaled_calls env d \<and> (ezdxf_readfile_call p, None) \<in> set new)
     \<and> (\<forall>x. fst (dxf_branch env ic imp p s) = Inr x \<longrightarrow>
           expected_import env imp ''.dxf'' bytes = Some x)"
  using assms
  by (simp add: dxf_branch_eq then_do_def step_def return_def read_file_def
      expected_import_def split: sum.split prod.split list.split)

lemma import_shape_spec:
  assumes ic: "\<And>q. \<not> is_scale_call (ic q)"
    and fsp: "fs s p = Some bytes"
    and run: "import_shape env ic imp suffix p s = (r, s')"
  shows "\<exists>new. trace s' = trace s @ new \<and> disc new r
     \<and> (suffix \<noteq> ''.dxf'' \<longrightarrow>
           dxf_free new
           \<and> (newDocument env = Inr () \<longrightarrow>
                (Part_read_call p, outcome (Part_read env bytes)) \<in> set new))
     \<and> (suffix = ''.dxf'' \<longrightarrow>
           (\<forall>d. ezdxf_readfile env bytes = Inr d \<longrightarrow>
              dxf_free new
              \<or> (ezdxf_readfile_call p, None) \<in> set new \<and> scale_calls new = scaled_calls env d))
     \<and> (\<forall>x. r = Inr x \<longrightarrow> expected_import env imp suffix bytes = Some x)"
proof (cases "newDocument env")
  case (Inl e)
  with run show ?thesis
    by (auto simp: import_shape_def then_do_def step_def)
next
  case nd: (Inr u)
  define s1 where "s1 = s\<lparr>trace := trace s @ [(newDocument_call, None)]\<rparr>"
  have s1: "trace s1 = trace s @ [(newDocument_call, None)]" "fs s1 p = Some bytes"
    using fsp by (simp_all add: s1_def)
  obtain rb sb where b:
    "(if suffix = ''.dxf'' then dxf_branch env ic imp p else part_branch env p) s1 = (rb, sb)"
    by (cases "(if suffix = ''.dxf'' then dxf_branch env ic imp p else part_branch env p) s1")
  have "\<exists>n1. trace sb = trace s1 @ n1 \<and> disc n1 rb
     \<and> (suffix \<noteq> ''.dxf'' \<longrightarrow>
           dxf_free n1 \<and> (Part_read_call p, outcome (Part_read env bytes)) \<in> set n1)
     \<and> (suffix = ''.dxf'' \<longrightarrow>
           (\<forall>d. ezdxf_readfile env bytes = Inr d \<longrightarrow>
              (ezdxf_readfile_call p, None) \<in> set n1 \<and> scale_calls n1 = scaled_calls env d))
     \<and> (\<forall>x. rb = Inr x \<longrightarrow> expected_import env imp suffix bytes = Some x)"
  proof (cases "suffix = ''.dxf''")
    case True
    with b have b': "dxf_branch env ic imp p s1 = (rb, sb)"
      by simp
    from dxf_branch_spec [where s = s1 and p = p and env = env and imp = imp and ic = ic,
        OF s1(2) ic] b' True
    show ?thesis
      by auto
  next
    case False
    with b have b': "part_branch env p s1 = (rb, sb)"
      by simp
    from part_branch_spec [OF s1(2), of env] b' False
    show ?thesis
      by (auto simp: expected_import_def split: sum.splits)
  qed
  then obtain n1 where n1: "trace sb = trace s1 @ n1" "disc n1 rb"
    "suffix \<noteq> ''.dxf'' \<longrightarrow>
       dxf_free n1 \<and> (Part_read_call p, outcome (Part_read env bytes)) \<in> set n1"
    "suffix = ''.dxf'' \<longrightarrow>
       (\<forall>d. ezdxf_readfile env bytes = Inr d \<longrightarrow>
          (ezdxf_readfile_call p, None) \<in> set n1 \<and> scale_calls n1 = scaled_calls env d)"
    "\<forall>x. rb = Inr x \<longrightarrow> expected_import env imp suffix bytes = Some x"
    by blast
  show ?thesis
  proof (cases rb)
    case (Inl e)
    with run nd b have "r = Inl e" "s' = sb"
      by (auto simp: import_shape_def then_do_def step_def s1_def)
    with n1 s1 Inl show ?thesis
      by (intro exI [of _ "(newDocument_call, None) # n1"]) auto
  next
    case x: (Inr x)
    show ?thesis
    proof (cases "recompute env 0")
      case (Inl e)
      with run nd b x have "r = Inl e" "trace s' = trace sb @ [(recompute_call, Some e)]"
        by (auto simp: import_shape_def then_do_def step_def s1_def)
      with n1 s1 x show ?thesis
        by (intro exI [of _ "(newDocument_call, None) # n1 @ [(recompute_call, Some e)]"]) auto
    next
      case (Inr u')
      with run nd b x have "r = Inr x" "trace s' = trace sb @ [(recompute_call, None)]"
        by (auto simp: import_shape_def then_do_def step_def return_def s1_def)
      with n1 s1 x show ?thesis
        by (intro exI [of _ "(newDocument_call, None) # n1 @ [(recompute_call, None)]"]) auto
    qed
  qed
qed

lemma resp_disc_Inl [simp]: "resp_disc new (Inl e) = raised_last new e"
  by (simp add: resp_disc_def)

lemma resp_disc_append: "clean n1 \<Longrightarrow> resp_disc n2 r \<Longrightarrow> resp_disc (n1 @ n2) r"
  by (auto simp: resp_disc_def split: sum.splits)

lemma status_main_freecad_success [simp]:
  "status_code (main_freecad_success env fr fi dd pl pn u bb) = 200"
  by (simp add: main_freecad_success_def Let_def)

lemma status_main_success [simp]: "status_code (main_success fr dd pl pn u bb) = 200"
  by (simp add: main_success_def)

lemma status_error_response [simp]: "status_code (error_response code msg details) = code"
  by (simp add: error_response_def)

lemma main_freecad_finish_spec:
  assumes "main_freecad_finish env fr fi dd pl pn u ob s = (r, s')"
  shows "\<exists>new. trace s' = trace s @ new \<and> dxf_free new \<and> resp_disc new r
     \<and> (\<forall>resp. r = Inr resp \<longrightarrow>
           (\<exists>bb. Shape_BoundBox ob = Inr bb \<and> resp = main_freecad_success env fr fi dd pl pn u bb))"
  using assms
  by (auto simp: main_freecad_finish_def then_do_def step_def return_def resp_disc_def
      split: sum.splits)

lemma main_finish_spec:
  assumes "main_finish fr dd pl pn u ob s = (r, s')"
  shows "\<exists>new. trace s' = trace s @ new \<and> dxf_free new \<and> resp_disc new r
     \<and> (\<forall>resp. r = Inr resp \<longrightarrow>
           (\<exists>bb. Shape_BoundBox ob = Inr bb \<and> resp = main_success fr dd pl pn u bb))"
  using assms
  by (auto simp: main_finish_def then_do_def step_def return_def resp_disc_def
      split: sum.splits)

lemma expected_flat_nulls:
  "\<not> (\<exists>mk. SheetMetalUnfolder env = Some mk \<and> truthy ob)
     \<Longrightarrow> expected_flat env ob = Some (JNull, JNull, JNull)"
  by (auto simp: expected_flat_def split: option.splits)

lemma main_freecad_unfolding_spec:
  assumes run: "main_freecad_unfolding env pl pn u ob s = (r, s')"
  shows "\<exists>new. trace s' = trace s @ new \<and> dxf_free new \<and> resp_disc new r
     \<and> (\<forall>resp. r = Inr resp \<longrightarrow> status_code resp = 500 \<or>
           (\<exists>fr fi dd bb. resp = main_freecad_success env fr fi dd pl pn u bb
              \<and> Shape_BoundBox ob = Inr bb \<and> expected_flat env ob = Some (fr, fi, dd)))"
proof (cases "\<exists>mk. SheetMetalUnfolder env = Some mk \<and> truthy ob")
  case False
  then have "main_freecad_finish env JNull JNull JNull pl pn u ob s = (r, s')"
    using run by (auto simp: main_freecad_unfolding_def split: option.splits if_splits)
  from main_freecad_finish_spec [OF this] expected_flat_nulls [OF False] show ?thesis
    by fastforce
next
  case True
  then obtain mk where mk: "SheetMetalUnfolder env = Some mk" "truthy ob"
    by blast
  obtain rf sf where f: "make_flat env mk ob s = (rf, sf)"
    by (cases "make_flat env mk ob s")
  obtain n1 where n1: "trace sf = trace s @ n1" "disc n1 rf" "dxf_free n1"
    "\<forall>x. rf = Inr x \<longrightarrow>
       (\<exists>flat_obj. mk ob = Inr flat_obj \<and> Shape_BoundBox flat_obj = Inr (fst x)
          \<and> Import_export env flat_obj = Inr (snd x))"
    using make_flat_spec [of env mk ob s] f by auto
  show ?thesis
  proof (cases rf)
    case (Inl e)
    with run mk f have "r = Inr (error_response 500 ''Unfolding failed'' (str e))" "s' = sf"
      by (auto simp: main_freecad_unfolding_def)
    with n1 Inl show ?thesis
      by (auto simp: resp_disc_def)
  next
    case (Inr x)
    obtain flat_bb dxf_data where x: "x = (flat_bb, dxf_data)"
      by (cases x)
    let ?fr = "JObj [(''flat_x_mm'', JNum (XLength flat_bb)), (''flat_y_mm'', JNum (YLength flat_bb))]"
    let ?fi = "JObj [(''flat_x_in'', JNum (mm_to_inches env (XLength flat_bb) 3)),
                     (''flat_y_in'', JNum (mm_to_inches env (YLength flat_bb) 3))]"
    from run mk f Inr x have
      "main_freecad_finish env ?fr ?fi (JStr dxf_data) pl pn u ob sf = (r, s')"
      by (auto simp: main_freecad_unfolding_def)
    from main_freecad_finish_spec [OF this] obtain n2 where
      a: "trace s' = trace sf @ n2" "resp_disc n2 r" "dxf_free n2"
        "\<forall>resp. r = Inr resp \<longrightarrow>
           (\<exists>bb. Shape_BoundBox ob = Inr bb
              \<and> resp = main_freecad_success env ?fr ?fi (JStr dxf_data) pl pn u bb)"
      by blast
    from n1(4) Inr x mk have ef: "expected_flat env ob = Some (?fr, ?fi, JStr dxf_data)"
      by (auto simp: expected_flat_def mm_to_inches_expected)
    from n1 Inr have "clean n1" by simp
    from resp_disc_append [OF this a(2)] have rd: "resp_disc (n1 @ n2) r" .
    have tr: "trace s' = trace s @ n1 @ n2"
      using a(1) n1(1) by simp
    have df: "dxf_free (n1 @ n2)"
      using n1(3) a(3) by simp
    from a(4) ef have form: "\<forall>resp. r = Inr resp \<longrightarrow> status_code resp = 500 \<or>
           (\<exists>fr fi dd bb. resp = main_freecad_success env fr fi dd pl pn u bb
              \<and> Shape_BoundBox ob = Inr bb \<and> expected_flat env ob = Some (fr, fi, dd))"
      by blast
    from tr df rd form show ?thesis
      by blast
  qed
qed

lemma main_unfolding_spec:
  assumes run: "main_unfolding env pl pn u ob s = (r, s')"
  shows "\<exists>new. trace s' = trace s @ new \<and> dxf_free new \<and> resp_disc new r
     \<and> (\<forall>resp. r = Inr resp \<longrightarrow>
           (\<exists>fr fi dd bb. resp = main_success fr dd pl pn u bb
              \<and> Shape_BoundBox ob = Inr bb \<and> expected_flat env ob = Some (fr, fi, dd)))"
proof (cases "\<exists>mk. SheetMetalUnfolder env = Some mk \<and> truthy ob")
  case False
  then have "main_finish JNull JNull pl pn u ob s = (r, s')"
    using run by (auto simp: main_unfolding_def split: option.splits if_splits)
  from main_finish_spec [OF this] expected_flat_nulls [OF False] show ?thesis
    by fastforce
next
  case True
  then obtain mk where mk: "SheetMetalUnfolder env = Some mk" "truthy ob"
    by blast
  obtain rf sf where f: "make_flat env mk ob s = (rf, sf)"
    by (cases "make_flat env mk ob s")
  obtain n1 where n1: "trace sf = trace s @ n1" "disc n1 rf" "dxf_free n1"
    "\<forall>x. rf = Inr x \<longrightarrow>
       (\<exists>flat_obj. mk ob = Inr flat_obj \<and> Shape_BoundBox flat_obj = Inr (fst x)
          \<and> Import_export env flat_obj = Inr (snd x))"
    using make_flat_spec [of env mk ob s] f by auto
  show ?thesis
  proof (cases rf)
    case (Inl e)
    with run mk f have "r = Inl e" "s' = sf"
      by (auto simp: main_unfolding_def then_do_def)
    with n1 Inl show ?thesis
      by auto
  next
    case (Inr x)
    obtain flat_bb dxf_data where x: "x = (flat_bb, dxf_data)"
      by (cases x)
    let ?fr = "JObj [(''flat_x_mm'', JNum (XLength flat_bb)), (''flat_y_mm'', JNum (YLength flat_bb))]"
    let ?fi = "JObj [(''flat_x_in'', JNum (expected_inches env (XLength flat_bb))),
                     (''flat_y_in'', JNum (expected_inches env (YLength flat_bb)))]"
    from run mk f Inr x have
      "main_finish ?fr (JStr dxf_data) pl pn u ob sf = (r, s')"
      by (auto simp: main_unfolding_def then_do_def)
    from main_finish_spec [OF this] obtain n2 where
      a: "trace s' = trace sf @ n2" "resp_disc n2 r" "dxf_free n2"
        "\<forall>resp. r = Inr resp \<longrightarrow>
           (\<exists>bb. Shape_BoundBox ob = Inr bb
              \<and> resp = main_success ?fr (JStr dxf_data) pl pn u bb)"
      by blast
    from n1(4) Inr x mk have ef: "expected_flat env ob = Some (?fr, ?fi, JStr dxf_data)"
      by (auto simp: expected_flat_def)
    from n1 Inr have "clean n1" by simp
    from resp_disc_append [OF this a(2)] have rd: "resp_disc (n1 @ n2) r" .
    have tr: "trace s' = trace s @ n1 @ n2"
      using a(1) n1(1) by simp
    have df: "dxf_free (n1 @ n2)"
      using n1(3) a(3) by simp
    from a(4) ef have form: "\<forall>resp. r = Inr resp \<longrightarrow>
           (\<exists>fr fi dd bb. resp = main_success fr dd pl pn u bb
              \<and> Shape_BoundBox ob = Inr bb \<and> expected_flat env ob = Some (fr, fi, dd))"
      by blast
    from tr df rd form show ?thesis
      by blast
  qed
qed

lemma dxf_combine:
  assumes "dxf_free a" "dxf_free c"
    and "dxf_free b \<or> (ezdxf_readfile_call p, None) \<in> set b \<and> scale_calls b = X"
  shows "scale_calls (a @ b @ c) =
           (if \<exists>q. (ezdxf_readfile_call q, None) \<in> set (a @ b @ c) then X else [])"
  using assms by (auto simp: dxf_free_scale_calls dest: dxf_free_no_readfile)

lemma dispatch_facts_combine:
  assumes a: "dxf_free a" and c: "dxf_free c"
    and nondxf: "suffix \<noteq> ''.dxf'' \<Longrightarrow> dxf_free b"
    and part: "\<And>stem. suffix \<noteq> ''.dxf'' \<Longrightarrow> upload_tmp_stem env = Inr stem
                 \<Longrightarrow> tmp_write env bytes = Inr () \<Longrightarrow> newDocument env = Inr ()
                 \<Longrightarrow> (Part_read_call (stem @ suffix), outcome (Part_read env bytes)) \<in> set b"
    and dxf: "\<And>d. suffix = ''.dxf'' \<Longrightarrow> ezdxf_readfile env bytes = Inr d
                 \<Longrightarrow> dxf_free b \<or> (ezdxf_readfile_call p, None) \<in> set b
                        \<and> scale_calls b = scaled_calls env d"
  shows "dispatch_facts env suffix bytes (a @ b @ c)"
proof (cases "suffix = ''.dxf''")
  case True
  then show ?thesis
    using dxf_combine [OF a c dxf] by (simp add: dispatch_facts_def)
next
  case False
  then show ?thesis
    using a c nondxf part by (fastforce simp: dispatch_facts_def)
qed

lemma main_freecad_tail_spec:
  assumes run:
    "then_do (write_upload env suffix bytes) (\<lambda>p.
       then_do (import_shape env Import_insert_call (Import_insert env) suffix p)
         (\<lambda>(pl, pn, u, ob). main_freecad_unfolding env pl pn u ob)) s = (r, s')"
  shows "\<exists>new. trace s' = trace s @ new \<and> resp_disc new r
     \<and> dispatch_facts env suffix bytes new
     \<and> (\<forall>resp. r = Inr resp \<longrightarrow> status_code resp = 500 \<or>
           (\<exists>fr fi dd pl pn u ob bb. resp = main_freecad_success env fr fi dd pl pn u bb
              \<and> expected_import env (Import_insert env) suffix bytes = Some (pl, pn, u, ob)
              \<and> Shape_BoundBox ob = Inr bb \<and> expected_flat env ob = Some (fr, fi, dd)))"
proof -
  obtain rw sw where w: "write_upload env suffix bytes s = (rw, sw)"
    by (cases "write_upload env suffix bytes s")
  from write_upload_spec [of env suffix bytes s] w obtain nw where
    nw: "trace sw = trace s @ nw" "disc nw rw" "dxf_free nw"
      "\<forall>p. rw = Inr p \<longrightarrow> fs sw p = Some bytes"
      "\<forall>stem. upload_tmp_stem env = Inr stem \<longrightarrow> tmp_write env bytes = Inr ()
         \<longrightarrow> rw = Inr (stem @ suffix)"
    by auto
  show ?thesis
  proof (cases rw)
    case (Inl e)
    with run w have r: "r = Inl e" "s' = sw"
      by (auto simp: then_do_def)
    have "dispatch_facts env suffix bytes ([] @ nw @ [])"
      using nw(3,5) Inl by (intro dispatch_facts_combine) auto
    with r nw Inl show ?thesis
      by auto
  next
    case p: (Inr p)
    have fsp: "fs sw p = Some bytes"
      using nw(4) p by simp
    obtain ri si where i:
      "import_shape env Import_insert_call (Import_insert env) suffix p sw = (ri, si)"
      by (cases "import_shape env Import_insert_call (Import_insert env) suffix p sw")
    from import_shape_spec [OF _ fsp i] obtain ni where
      ni: "trace si = trace sw @ ni" "disc ni ri"
        "suffix \<noteq> ''.dxf'' \<longrightarrow> dxf_free ni
           \<and> (newDocument env = Inr () \<longrightarrow>
                (Part_read_call p, outcome (Part_read env bytes)) \<in> set ni)"
        "suffix = ''.dxf'' \<longrightarrow>
           (\<forall>d. ezdxf_readfile env bytes = Inr d \<longrightarrow>
              dxf_free ni
              \<or> (ezdxf_readfile_call p, None) \<in> set ni \<and> scale_calls ni = scaled_calls env d)"
        "\<forall>x. ri = Inr x \<longrightarrow> expected_import env (Import_insert env) suffix bytes = Some x"
      by auto
    have stem: "p = stem @ suffix" if "upload_tmp_stem env = Inr stem" "tmp_write env bytes = Inr ()"
      for stem
      using nw(5) p that by auto
    have disp: "dispatch_facts env suffix bytes (nw @ ni @ c)" if "dxf_free c" for c
      using nw(3) that ni(3,4) stem
      by (intro dispatch_facts_combine [where p = p]) auto
    have cl: "clean nw"
      using nw(2) p by simp
    show ?thesis
    proof (cases ri)
      case (Inl e)
      with run w p i have r: "r = Inl e" "s' = si"
        by (auto simp: then_do_def)
      from disp [of "[]"] r nw ni Inl cl show ?thesis
        by auto
    next
      case x: (Inr x)
      obtain pl pn u ob where xx: "x = (pl, pn, u, ob)"
        by (cases x) auto
      from run w p i x xx have "main_freecad_unfolding env pl pn u ob si = (r, s')"
        by (auto simp: then_do_def)
      from main_freecad_unfolding_spec [OF this] obtain nu where
        nu: "trace s' = trace si @ nu" "dxf_free nu" "resp_disc nu r"
          "\<forall>resp. r = Inr resp \<longrightarrow> status_code resp = 500 \<or>
             (\<exists>fr fi dd bb. resp = main_freecad_success env fr fi dd pl pn u bb
                \<and> Shape_BoundBox ob = Inr bb \<and> expected_flat env ob = Some (fr, fi, dd))"
        by blast
      have ei: "expected_import env (Import_insert env) suffix bytes = Some (pl, pn, u, ob)"
        using ni(5) x xx by simp
      have "clean (nw @ ni)"
        using cl ni(2) x by simp
      from resp_disc_append [OF this nu(3)] have rd: "resp_disc (nw @ ni @ nu) r"
        by simp
      have tr: "trace s' = trace s @ nw @ ni @ nu"
        using nu(1) ni(1) nw(1) by simp
      have form: "\<forall>resp. r = Inr resp \<longrightarrow> status_code resp = 500 \<or>
           (\<exists>fr fi dd pl pn u ob bb. resp = main_freecad_success env fr fi dd pl pn u bb
              \<and> expected_import env (Import_insert env) suffix bytes = Some (pl, pn, u, ob)
              \<and> Shape_BoundBox ob = Inr bb \<and> expected_flat env ob = Some (fr, fi, dd))"
        using nu(4) ei by blast
      from tr rd disp [OF nu(2)] form show ?thesis
        by blast
    qed
  qed
qed

lemma main_tail_spec:
  assumes run:
    "then_do (write_upload env suffix bytes) (\<lambda>p.
       then_do (import_shape env Import_importDXF_call (Import_importDXF env) suffix p)
         (\<lambda>(pl, pn, u, ob). main_unfolding env pl pn u ob)) s = (r, s')"
  shows "\<exists>new. trace s' = trace s @ new \<and> resp_disc new r
     \<and> dispatch_facts env suffix bytes new
     \<and> (\<forall>resp. r = Inr resp \<longrightarrow> 
           (\<exists>fr fi dd pl pn u ob bb. resp = main_success fr dd pl pn u bb
              \<and> expected_import env (Import_importDXF env) suffix bytes = Some (pl, pn, u, ob)
              \<and> Shape_BoundBox ob = Inr bb \<and> expected_flat env ob = Some (fr, fi, dd)))"
proof -
  obtain rw sw where w: "write_upload env suffix bytes s = (rw, sw)"
    by (cases "write_upload env suffix bytes s")
  from write_upload_spec [of env suffix bytes s] w obtain nw where
    nw: "trace sw = trace s @ nw" "disc nw rw" "dxf_free nw"
      "\<forall>p. rw = Inr p \<longrightarrow> fs sw p = Some bytes"
      "\<forall>stem. upload_tmp_stem env = Inr stem \<longrightarrow> tmp_write env bytes = Inr ()
         \<longrightarrow> rw = Inr (stem @ suffix)"
    by auto
  show ?thesis
  proof (cases rw)
    case (Inl e)
    with run w have r: "r = Inl e" "s' = sw"
      by (auto simp: then_do_def)
    have "dispatch_facts env suffix bytes ([] @ nw @ [])"
      using nw(3,5) Inl by (intro dispatch_facts_combine) auto
    with r nw Inl show ?thesis
      by auto
  next
    case p: (Inr p)
    have fsp: "fs sw p = Some bytes"
      using nw(4) p by simp
    obtain ri si where i:
      "import_shape env Import_importDXF_call (Import_importDXF env) suffix p sw = (ri, si)"
      by (cases "import_shape env Import_importDXF_call (Import_importDXF env) suffix p sw")
    from import_shape_spec [OF _ fsp i] obtain ni where
      ni: "trace si = trace sw @ ni" "disc ni ri"
        "suffix \<noteq> ''.dxf'' \<longrightarrow> dxf_free ni
           \<and> (newDocument env = Inr () \<longrightarrow>
                (Part_read_call p, outcome (Part_read env bytes)) \<in> set ni)"
        "suffix = ''.dxf'' \<longrightarrow>
           (\<forall>d. ezdxf_readfile env bytes = Inr d \<longrightarrow>
              dxf_free ni
              \<or> (ezdxf_readfile_call p, None) \<in> set ni \<and> scale_calls ni = scaled_calls env d)"
        "\<forall>x. ri = Inr x \<longrightarrow> expected_import env (Import_importDXF env) suffix bytes = Some x"
      by auto
    have stem: "p = stem @ suffix" if "upload_tmp_stem env = Inr stem" "tmp_write env bytes = Inr ()"
      for stem
      using nw(5) p that by auto
    have disp: "dispatch_facts env suffix bytes (nw @ ni @ c)" if "dxf_free c" for c
      using nw(3) that ni(3,4) stem
      by (intro dispatch_facts_combine [where p = p]) auto
    have cl: "clean nw"
      using nw(2) p by simp
    show ?thesis
    proof (cases ri)
      case (Inl e)
      with run w p i have r: "r = Inl e" "s' = si"
        by (auto simp: then_do_def)
      from disp [of "[]"] r nw ni Inl cl show ?thesis
        by auto
    next
      case x: (Inr x)
      obtain pl pn u ob where xx: "x = (pl, pn, u, ob)"
        by (cases x) auto
      from run w p i x xx have "main_unfolding env pl pn u ob si = (r, s')"
        by (auto simp: then_do_def)
      from main_unfolding_spec [OF this] obtain nu where
        nu: "trace s' = trace si @ nu" "dxf_free nu" "resp_disc nu r"
          "\<forall>resp. r = Inr resp \<longrightarrow> 
             (\<exists>fr fi dd bb. resp = main_success fr dd pl pn u bb
                \<and> Shape_BoundBox ob = Inr bb \<and> expected_flat env ob = Some (fr, fi, dd))"
        by blast
      have ei: "expected_import env (Import_importDXF env) suffix bytes = Some (pl, pn, u, ob)"
        using ni(5) x xx by simp
      have "clean (nw @ ni)"
        using cl ni(2) x by simp
      from resp_disc_append [OF this nu(3)] have rd: "resp_disc (nw @ ni @ nu) r"
        by simp
      have tr: "trace s' = trace s @ nw @ ni @ nu"
        using nu(1) ni(1) nw(1) by simp
      have form: "\<forall>resp. r = Inr resp \<longrightarrow> 
           (\<exists>fr fi dd pl pn u ob bb. resp = main_success fr dd pl pn u bb
              \<and> expected_import env (Import_importDXF env) suffix bytes = Some (pl, pn, u, ob)
              \<and> Shape_BoundBox ob = Inr bb \<and> expected_flat env ob = Some (fr, fi, dd))"
        using nu(4) ei by blast
      from tr rd disp [OF nu(2)] form show ?thesis
        by blast
    qed
  qed
qed

lemma then_do_step:
  "then_do (step c r) f s =
     (case r of
        Inl e \<Rightarrow> (Inl e, s\<lparr>trace := trace s @ [(c, Some e)]\<rparr>)
      | Inr x \<Rightarrow> f x (s\<lparr>trace := trace s @ [(c, None)]\<rparr>))"
  by (simp add: then_do_def step_def split: sum.split)

lemma dispatch_facts_magic:
  "dispatch_facts env suffix bytes ((magic_from_buffer_call b, a) # new)
     = dispatch_facts env suffix bytes new"
  by (simp add: dispatch_facts_def)

lemma main_freecad_body_spec:
  assumes run: "main_freecad_unfold_body env file (init_st fs0) = (r, s')"
  shows "resp_disc (trace s') r
     \<and> (accepted env file \<longrightarrow>
          dispatch_facts env (file_suffix env file) (up_bytes file) (trace s'))
     \<and> (\<not> accepted env file \<longrightarrow> dxf_free (trace s'))
     \<and> (\<forall>resp. r = Inr resp \<longrightarrow> status_code resp = 200 \<longrightarrow>
           (\<exists>fr fi dd pl pn u ob bb. resp = main_freecad_success env fr fi dd pl pn u bb
              \<and> expected_import env (Import_insert env) (file_suffix env file) (up_bytes file)
                  = Some (pl, pn, u, ob)
              \<and> Shape_BoundBox ob = Inr bb \<and> expected_flat env ob = Some (fr, fi, dd)))
     \<and> (\<forall>resp. r = Inr resp \<longrightarrow> accepted env file \<longrightarrow>
           status_code resp = 200 \<or> status_code resp = 500)"
proof (cases "accepted env file")
  case False
  with run show ?thesis
    by (auto simp: main_freecad_unfold_body_def accepted_def then_do_step return_def init_st_def
        resp_disc_def split: sum.splits if_splits)
next
  case True
  then obtain mime where m: "\<not> 2 < size_mb (length (up_bytes file))"
      "magic_from_buffer env (take 2048 (up_bytes file)) = Inr mime" "mime \<in> set allowed_mimes"
    by (auto simp: accepted_def split: sum.splits)
  define s1 :: "'a st" where
    "s1 = (init_st fs0)\<lparr>trace := [(magic_from_buffer_call (take 2048 (up_bytes file)), None)]\<rparr>"
  from run m have
    "then_do (write_upload env (file_suffix env file) (up_bytes file)) (\<lambda>p.
       then_do (import_shape env Import_insert_call (Import_insert env) (file_suffix env file) p)
         (\<lambda>(pl, pn, u, ob). main_freecad_unfolding env pl pn u ob)) s1 = (r, s')"
    by (simp add: main_freecad_unfold_body_def then_do_step s1_def init_st_def)
  from main_freecad_tail_spec [OF this] obtain new where
    new: "trace s' = trace s1 @ new" "resp_disc new r"
      "dispatch_facts env (file_suffix env file) (up_bytes file) new"
      "\<forall>resp. r = Inr resp \<longrightarrow> status_code resp = 500 \<or>
           (\<exists>fr fi dd pl pn u ob bb. resp = main_freecad_success env fr fi dd pl pn u bb
              \<and> expected_import env (Import_insert env) (file_suffix env file) (up_bytes file)
                  = Some (pl, pn, u, ob)
              \<and> Shape_BoundBox ob = Inr bb \<and> expected_flat env ob = Some (fr, fi, dd))"
    by blast
  have tr: "trace s' = (magic_from_buffer_call (take 2048 (up_bytes file)), None) # new"
    using new(1) by (simp add: s1_def)
  have "resp_disc ([(magic_from_buffer_call (take 2048 (up_bytes file)), None)] @ new) r"
    using new(2) by (intro resp_disc_append) simp_all
  then have rd: "resp_disc (trace s') r"
    using tr by simp
  have df: "dispatch_facts env (file_suffix env file) (up_bytes file) (trace s')"
    using new(3) tr by (simp add: dispatch_facts_magic)
  from rd df True new(4) show ?thesis
    by fastforce
qed

lemma main_body_spec:
  assumes run: "main_unfold_body env file (init_st fs0) = (r, s')"
  shows "resp_disc (trace s') r
     \<and> dispatch_facts env (file_suffix env file) (up_bytes file) (trace s')
     \<and> (\<forall>resp. r = Inr resp \<longrightarrow>
           (\<exists>fr fi dd pl pn u ob bb. resp = main_success fr dd pl pn u bb
              \<and> expected_import env (Import_importDXF env) (file_suffix env file) (up_bytes file)
                  = Some (pl, pn, u, ob)
              \<and> Shape_BoundBox ob = Inr bb \<and> expected_flat env ob = Some (fr, fi, dd)))"
proof -
  from run have
    "then_do (write_upload env (file_suffix env file) (up_bytes file)) (\<lambda>p.
       then_do (import_shape env Import_importDXF_call (Import_importDXF env)
                  (file_suffix env file) p)
         (\<lambda>(pl, pn, u, ob). main_unfolding env pl pn u ob)) (init_st fs0) = (r, s')"
    by (simp add: main_unfold_body_def)
  from main_tail_spec [OF this] show ?thesis
    by (auto simp: init_st_def)
qed

section \<open>Whole requests\<close>

lemma only_removes_simps [simp]:
  "only_removes []"
  "only_removes (xs @ ys) \<longleftrightarrow> only_removes xs \<and> only_removes ys"
  "only_removes (ev # xs) \<longleftrightarrow> is_remove_call (fst ev) \<and> only_removes xs"
  by (simp_all add: only_removes_def)

lemma only_removes_mem: "only_removes rem \<Longrightarrow> (c, x) \<in> set rem \<Longrightarrow> is_remove_call c"
  by (auto simp: only_removes_def list_all_iff)

lemma only_removes_dxf_free: "only_removes rem \<Longrightarrow> dxf_free rem"
  by (induction rem) (auto elim: is_remove_call.elims)

lemma only_removes_scale_calls: "only_removes rem \<Longrightarrow> scale_calls rem = []"
  by (simp add: only_removes_dxf_free dxf_free_scale_calls)

lemma dispatch_facts_removes:
  assumes "only_removes rem" "dispatch_facts env suffix bytes tr"
  shows "dispatch_facts env suffix bytes (tr @ rem)"
proof -
  have "(\<exists>q. (ezdxf_readfile_call q, None) \<in> set (tr @ rem))
          \<longleftrightarrow> (\<exists>q. (ezdxf_readfile_call q, None) \<in> set tr)"
    using assms(1) by (auto dest: only_removes_mem)
  with assms show ?thesis
    by (simp add: dispatch_facts_def only_removes_dxf_free only_removes_scale_calls)
qed

lemma remove_if_exists_spec:
  "\<exists>rem. trace (snd (remove_if_exists env v s)) = trace s @ rem \<and> only_removes rem
     \<and> (\<forall>e. fst (remove_if_exists env v s) = Inl e \<longrightarrow>
           (\<exists>p. (os_remove_call p, Some e) \<in> set rem))
     \<and> ((\<forall>p. os_remove env p = Inr ()) \<longrightarrow> fst (remove_if_exists env v s) = Inr ())"
  by (simp add: remove_if_exists_def then_do_def step_def return_def
      split: option.split sum.split prod.split)

lemma cleanup_spec:
  "\<exists>rem. trace (snd (cleanup env s)) = trace s @ rem \<and> only_removes rem
     \<and> (\<forall>e. fst (cleanup env s) = Inl e \<longrightarrow> (\<exists>p. (os_remove_call p, Some e) \<in> set rem))
     \<and> ((\<forall>p. os_remove env p = Inr ()) \<longrightarrow> fst (cleanup env s) = Inr ())"
proof -
  obtain r1 s1 where a: "remove_if_exists env (tmp_path s) s = (r1, s1)"
    by (cases "remove_if_exists env (tmp_path s) s")
  from remove_if_exists_spec [of env "tmp_path s" s] a obtain rem1 where
    rem1: "trace s1 = trace s @ rem1" "only_removes rem1"
      "\<forall>e. r1 = Inl e \<longrightarrow> (\<exists>p. (os_remove_call p, Some e) \<in> set rem1)"
      "(\<forall>p. os_remove env p = Inr ()) \<longrightarrow> r1 = Inr ()"
    by auto
  show ?thesis
  proof (cases r1)
    case (Inl e)
    with a have "cleanup env s = (Inl e, s1)"
      by (simp add: cleanup_def then_do_def)
    with rem1 Inl show ?thesis
      by auto
  next
    case (Inr u)
    obtain r2 s2 where b: "remove_if_exists env (flat_dxf_path s1) s1 = (r2, s2)"
      by (cases "remove_if_exists env (flat_dxf_path s1) s1")
    from remove_if_exists_spec [of env "flat_dxf_path s1" s1] b obtain rem2 where
      rem2: "trace s2 = trace s1 @ rem2" "only_removes rem2"
        "\<forall>e. r2 = Inl e \<longrightarrow> (\<exists>p. (os_remove_call p, Some e) \<in> set rem2)"
        "(\<forall>p. os_remove env p = Inr ()) \<longrightarrow> r2 = Inr ()"
      by auto
    from a b Inr have c: "cleanup env s = (r2, s2)"
      by (simp add: cleanup_def then_do_def)
    have "trace s2 = trace s @ rem1 @ rem2" "only_removes (rem1 @ rem2)"
      using rem1 rem2 by simp_all
    moreover have "\<forall>e. r2 = Inl e \<longrightarrow> (\<exists>p. (os_remove_call p, Some e) \<in> set (rem1 @ rem2))"
      using rem2(3) by auto
    ultimately show ?thesis
      using c rem2(4) by (intro exI [of _ "rem1 @ rem2"]) simp
  qed
qed

lemma run_finally_spec:
  "\<exists>rem. trace (snd (run_finally env resp s)) = trace s @ rem \<and> only_removes rem
     \<and> (\<forall>resp'. fst (run_finally env resp s) = Inr resp' \<longrightarrow> resp' = resp)
     \<and> (\<forall>e. fst (run_finally env resp s) = Inl e \<longrightarrow>
           (\<exists>p. (os_remove_call p, Some e) \<in> set rem))
     \<and> ((\<forall>p. os_remove env p = Inr ()) \<longrightarrow> fst (run_finally env resp s) = Inr resp)"
proof -
  obtain r1 s1 where a: "cleanup env s = (r1, s1)"
    by (cases "cleanup env s")
  from cleanup_spec [of env s] a obtain rem where
    "trace s1 = trace s @ rem" "only_removes rem"
    "\<forall>e. r1 = Inl e \<longrightarrow> (\<exists>p. (os_remove_call p, Some e) \<in> set rem)"
    "(\<forall>p. os_remove env p = Inr ()) \<longrightarrow> r1 = Inr ()"
    by auto
  with a show ?thesis
    by (cases r1) (auto simp: run_finally_def then_do_def return_def)
qed

lemma main_freecad_unfold_cases:
  "\<exists>r s rem. main_freecad_unfold_body env file (init_st fs0) = (r, s)
     \<and> trace (snd (main_freecad_unfold env file fs0)) = trace s @ rem
     \<and> only_removes rem
     \<and> (\<forall>resp. fst (main_freecad_unfold env file fs0) = Inr resp \<longrightarrow>
           resp = (case r of Inl e \<Rightarrow> error_response 500 ''Request failed'' (str e)
                   | Inr resp' \<Rightarrow> resp'))
     \<and> (\<forall>e. fst (main_freecad_unfold env file fs0) = Inl e \<longrightarrow>
           (\<exists>p. (os_remove_call p, Some e) \<in> set rem))
     \<and> ((\<forall>p. os_remove env p = Inr ()) \<longrightarrow>
           fst (main_freecad_unfold env file fs0) =
             Inr (case r of Inl e \<Rightarrow> error_response 500 ''Request failed'' (str e)
                  | Inr resp' \<Rightarrow> resp'))"
proof -
  obtain r s where b: "main_freecad_unfold_body env file (init_st fs0) = (r, s)"
    by (cases "main_freecad_unfold_body env file (init_st fs0)")
  define resp0 where
    "resp0 = (case r of Inl e \<Rightarrow> error_response 500 ''Request failed'' (str e) | Inr resp' \<Rightarrow> resp')"
  have u: "main_freecad_unfold env file fs0 = run_finally env resp0 s"
    using b by (simp add: main_freecad_unfold_def resp0_def split: sum.split)
  from run_finally_spec [of env resp0 s] obtain rem where
    "trace (snd (run_finally env resp0 s)) = trace s @ rem" "only_removes rem"
    "\<forall>resp'. fst (run_finally env resp0 s) = Inr resp' \<longrightarrow> resp' = resp0"
    "\<forall>e. fst (run_finally env resp0 s) = Inl e \<longrightarrow> (\<exists>p. (os_remove_call p, Some e) \<in> set rem)"
    "(\<forall>p. os_remove env p = Inr ()) \<longrightarrow> fst (run_finally env resp0 s) = Inr resp0"
    by blast
  with b u show ?thesis
    by (intro exI [of _ r] exI [of _ s] exI [of _ rem]) (simp add: resp0_def)
qed

lemma main_unfold_cases:
  "\<exists>r s rem. main_unfold_body env file (init_st fs0) = (r, s)
     \<and> trace (snd (main_unfold env file fs0)) = trace s @ rem
     \<and> only_removes rem
     \<and> (\<forall>resp. fst (main_unfold env file fs0) = Inr resp \<longrightarrow>
           resp = (case r of Inl e \<Rightarrow> error_response 500 ''Unfolding failed'' (format_exc env e)
                   | Inr resp' \<Rightarrow> resp'))
     \<and> (\<forall>e. fst (main_unfold env file fs0) = Inl e \<longrightarrow>
           (\<exists>p. (os_remove_call p, Some e) \<in> set rem))
     \<and> ((\<forall>p. os_remove env p = Inr ()) \<longrightarrow>
           fst (main_unfold env file fs0) =
             Inr (case r of Inl e \<Rightarrow> error_response 500 ''Unfolding failed'' (format_exc env e)
                  | Inr resp' \<Rightarrow> resp'))"
proof -
  obtain r s where b: "main_unfold_body env file (init_st fs0) = (r, s)"
    by (cases "main_unfold_body env file (init_st fs0)")
  define resp0 where
    "resp0 = (case r of Inl e \<Rightarrow> error_response 500 ''Unfolding failed'' (format_exc env e)
              | Inr resp' \<Rightarrow> resp')"
  have u: "main_unfold env file fs0 = run_finally env resp0 s"
    using b by (simp add: main_unfold_def resp0_def split: sum.split)
  from run_finally_spec [of env resp0 s] obtain rem where
    "trace (snd (run_finally env resp0 s)) = trace s @ rem" "only_removes rem"
    "\<forall>resp'. fst (run_finally env resp0 s) = Inr resp' \<longrightarrow> resp' = resp0"
    "\<forall>e. fst (run_finally env resp0 s) = Inl e \<longrightarrow> (\<exists>p. (os_remove_call p, Some e) \<in> set rem)"
    "(\<forall>p. os_remove env p = Inr ()) \<longrightarrow> fst (run_finally env resp0 s) = Inr resp0"
    by blast
  with b u show ?thesis
    by (intro exI [of _ r] exI [of _ s] exI [of _ rem]) (simp add: resp0_def)
qed

lemma clean_no_raise: "clean tr \<Longrightarrow> (c, Some e) \<in> set tr \<Longrightarrow> is_scale_call c"
  by (auto simp: clean_def list_all_iff)

lemma raised_last_unique:
  assumes "raised_last tr e" "(c, Some e') \<in> set tr" "\<not> is_scale_call c"
  shows "e' = e"
proof -
  from assms(1) have ne: "tr \<noteq> []" and l: "snd (last tr) = Some e" and cl: "clean (butlast tr)"
    by (simp_all add: raised_last_def)
  from ne have "tr = butlast tr @ [last tr]"
    by simp
  with assms(2) have "(c, Some e') \<in> set (butlast tr) \<or> (c, Some e') = last tr"
    by (metis Un_iff empty_iff insert_iff list.simps(15) set_append empty_set)
  then show ?thesis
  proof
    assume "(c, Some e') \<in> set (butlast tr)"
    with cl assms(3) show ?thesis
      by (auto dest: clean_no_raise)
  next
    assume "(c, Some e') = last tr"
    then have "snd (last tr) = Some e'"
      by (metis snd_conv)
    with l show ?thesis
      by simp
  qed
qed

section \<open>The handlers against the expected content\<close>


lemma last_note_Nil [simp]: "last_note P [] = None"
  by (simp add: last_note_def)





lemma expected_import_dxf:
  assumes "expected_import env imp ''.dxf'' bytes = Some (pl, pn, u, ob)"
    and "ezdxf_readfile env bytes = Inr d"
  shows "pl = layers d \<and> pn = text_entities d \<and> u = expected_units (insunits d)"
  using assms by (auto simp: expected_import_def split: sum.splits if_splits)

lemma expected_import_other:
  assumes "expected_import env imp suffix bytes = Some (pl, pn, u, ob)"
    and "suffix \<noteq> ''.dxf''"
  shows "pl = [] \<and> pn = [] \<and> u = ''unknown''
     \<and> (\<exists>shape. Part_read env bytes = Inr shape
           \<and> ob = \<lparr>truthy = True, Shape_BoundBox = Inr shape\<rparr>)"
  using assms by (auto simp: expected_import_def split: sum.splits)

lemma json_main_freecad_success:
  "json_keys (content (main_freecad_success env fr fi dd pl pn u bb)) =
     [''flat_pattern'', ''flat_pattern_in'', ''thickness_mm'', ''thickness_in'', ''parsed_layers'',
      ''parsed_notes'', ''dxf_units'', ''customer_name'', ''part_number'', ''part_description'',
      ''flat_dxf'']"
  "json_get (content (main_freecad_success env fr fi dd pl pn u bb)) ''flat_pattern'' = Some fr"
  "json_get (content (main_freecad_success env fr fi dd pl pn u bb)) ''flat_pattern_in'' = Some fi"
  "json_get (content (main_freecad_success env fr fi dd pl pn u bb)) ''flat_dxf'' = Some dd"
  "json_get (content (main_freecad_success env fr fi dd pl pn u bb)) ''parsed_layers''
     = Some (JList (map JStr pl))"
  "json_get (content (main_freecad_success env fr fi dd pl pn u bb)) ''parsed_notes''
     = Some (JList (map JStr pn))"
  "json_get (content (main_freecad_success env fr fi dd pl pn u bb)) ''dxf_units'' = Some (JStr u)"
  "json_get (content (main_freecad_success env fr fi dd pl pn u bb)) ''thickness_mm''
     = Some (JNum (ZLength bb))"
  by (simp_all add: main_freecad_success_def json_keys_def json_get_def Let_def)

lemma json_main_success:
  "json_keys (content (main_success fr dd pl pn u bb)) =
     [''bounding_box_mm'', ''flat_pattern'', ''flat_dxf'', ''parsed_layers'', ''parsed_notes'',
      ''dxf_units'']"
  "json_get (content (main_success fr dd pl pn u bb)) ''flat_pattern'' = Some fr"
  "json_get (content (main_success fr dd pl pn u bb)) ''flat_dxf'' = Some dd"
  "json_get (content (main_success fr dd pl pn u bb)) ''parsed_layers'' = Some (JList (map JStr pl))"
  "json_get (content (main_success fr dd pl pn u bb)) ''parsed_notes'' = Some (JList (map JStr pn))"
  "json_get (content (main_success fr dd pl pn u bb)) ''dxf_units'' = Some (JStr u)"
  "json_get (content (main_success fr dd pl pn u bb)) ''bounding_box_mm'' =
     Some (JObj [(''x'', JNum (XLength bb)), (''y'', JNum (YLength bb)), (''z'', JNum (ZLength bb))])"
  by (simp_all add: main_success_def json_keys_def json_get_def)

lemma main_freecad_unfold_facts:
  "(accepted env file \<longrightarrow>
      dispatch_facts env (file_suffix env file) (up_bytes file)
        (trace (snd (main_freecad_unfold env file fs0))))
   \<and> (\<not> accepted env file \<longrightarrow> dxf_free (trace (snd (main_freecad_unfold env file fs0))))
   \<and> (\<forall>resp. fst (main_freecad_unfold env file fs0) = Inr resp \<longrightarrow> status_code resp = 200 \<longrightarrow>
         (\<exists>fr fi dd pl pn u ob bb. resp = main_freecad_success env fr fi dd pl pn u bb
            \<and> expected_import env (Import_insert env) (file_suffix env file) (up_bytes file)
                = Some (pl, pn, u, ob)
            \<and> Shape_BoundBox ob = Inr bb \<and> expected_flat env ob = Some (fr, fi, dd)))"
proof -
  from main_freecad_unfold_cases [of env "file" fs0]
  obtain r s rem where b: "main_freecad_unfold_body env file (init_st fs0) = (r, s)"
    and t: "trace (snd (main_freecad_unfold env file fs0)) = trace s @ rem"
    and rem: "only_removes rem"
    and f: "\<forall>resp. fst (main_freecad_unfold env file fs0) = Inr resp \<longrightarrow>
           resp = (case r of Inl e \<Rightarrow> error_response 500 ''Request failed'' (str e)
                   | Inr resp' \<Rightarrow> resp')"
    by blast
  note spec = main_freecad_body_spec [OF b]
  have A: "accepted env file \<longrightarrow>
      dispatch_facts env (file_suffix env file) (up_bytes file) (trace s @ rem)"
    using spec rem by (simp add: dispatch_facts_removes)
  have B: "\<not> accepted env file \<longrightarrow> dxf_free (trace s @ rem)"
    using spec rem by (simp add: only_removes_dxf_free)
  have C: "\<exists>fr fi dd pl pn u ob bb. resp = main_freecad_success env fr fi dd pl pn u bb
            \<and> expected_import env (Import_insert env) (file_suffix env file) (up_bytes file)
                = Some (pl, pn, u, ob)
            \<and> Shape_BoundBox ob = Inr bb \<and> expected_flat env ob = Some (fr, fi, dd)"
    if ret: "fst (main_freecad_unfold env file fs0) = Inr resp" and ok: "status_code resp = 200"
    for resp
  proof (cases r)
    case (Inl e)
    with f ret ok show ?thesis
      by (simp add: error_response_def)
  next
    case (Inr resp')
    with f ret have "r = Inr resp" by simp
    with spec ok show ?thesis by blast
  qed
  from A B C t show ?thesis
    by simp
qed

lemma main_unfold_facts:
  "dispatch_facts env (file_suffix env file) (up_bytes file)
     (trace (snd (main_unfold env file fs0)))
   \<and> (\<forall>resp. fst (main_unfold env file fs0) = Inr resp \<longrightarrow> status_code resp = 200 \<longrightarrow>
         (\<exists>fr fi dd pl pn u ob bb. resp = main_success fr dd pl pn u bb
            \<and> expected_import env (Import_importDXF env) (file_suffix env file) (up_bytes file)
                = Some (pl, pn, u, ob)
            \<and> Shape_BoundBox ob = Inr bb \<and> expected_flat env ob = Some (fr, fi, dd)))"
proof -
  from main_unfold_cases [of env "file" fs0]
  obtain r s rem where b: "main_unfold_body env file (init_st fs0) = (r, s)"
    and t: "trace (snd (main_unfold env file fs0)) = trace s @ rem"
    and rem: "only_removes rem"
    and f: "\<forall>resp. fst (main_unfold env file fs0) = Inr resp \<longrightarrow>
           resp = (case r of Inl e \<Rightarrow> error_response 500 ''Unfolding failed'' (format_exc env e)
                   | Inr resp' \<Rightarrow> resp')"
    by blast
  note spec = main_body_spec [OF b]
  have A: "dispatch_facts env (file_suffix env file) (up_bytes file) (trace s @ rem)"
    using spec rem by (simp add: dispatch_facts_removes)
  have C: "\<exists>fr fi dd pl pn u ob bb. resp = main_success fr dd pl pn u bb
            \<and> expected_import env (Import_importDXF env) (file_suffix env file) (up_bytes file)
                = Some (pl, pn, u, ob)
            \<and> Shape_BoundBox ob = Inr bb \<and> expected_flat env ob = Some (fr, fi, dd)"
    if ret: "fst (main_unfold env file fs0) = Inr resp" and ok: "status_code resp = 200"
    for resp
  proof (cases r)
    case (Inl e)
    with f ret ok show ?thesis
      by (simp add: error_response_def)
  next
    case (Inr resp')
    with f ret have "r = Inr resp" by simp
    with spec show ?thesis by blast
  qed
  from A C t show ?thesis
    by simp
qed

lemma expected_units_detect: "expected_units u = fst (detect_units u)"
  by (simp add: expected_units_def detect_units_def)

lemma main_freecad_dxf_run:
  assumes sfx: "file_suffix env file = ''.dxf''"
    and rd: "ezdxf_readfile env (up_bytes file) = Inr d"
  shows "scale_calls (trace (snd (main_freecad_unfold env file fs0))) =
           (if \<exists>q. (ezdxf_readfile_call q, None) \<in> set (trace (snd (main_freecad_unfold env file fs0)))
            then scaled_calls env d else [])
     \<and> (returned_status (fst (main_freecad_unfold env file fs0)) = Some 200 \<longrightarrow>
          returned_field (fst (main_freecad_unfold env file fs0)) ''dxf_units''
            = Some (JStr (fst (detect_units (insunits d))))
          \<and> returned_field (fst (main_freecad_unfold env file fs0)) ''parsed_layers''
            = Some (JList (map JStr (layers d)))
          \<and> returned_field (fst (main_freecad_unfold env file fs0)) ''parsed_notes''
            = Some (JList (map JStr (text_entities d))))"
proof -
  note facts = main_freecad_unfold_facts [of env "file" fs0]
  have sc: "scale_calls (trace (snd (main_freecad_unfold env file fs0))) =
           (if \<exists>q. (ezdxf_readfile_call q, None) \<in> set (trace (snd (main_freecad_unfold env file fs0)))
            then scaled_calls env d else [])"
  proof (cases "accepted env file")
    case True
    with facts sfx rd show ?thesis
      by (simp add: dispatch_facts_def)
  next
    case False
    with facts have "dxf_free (trace (snd (main_freecad_unfold env file fs0)))" by simp
    then show ?thesis
      by (auto simp: dxf_free_scale_calls dest: dxf_free_no_readfile)
  qed
  have "json_get (content resp) ''dxf_units'' = Some (JStr (fst (detect_units (insunits d))))
      \<and> json_get (content resp) ''parsed_layers'' = Some (JList (map JStr (layers d)))
      \<and> json_get (content resp) ''parsed_notes'' = Some (JList (map JStr (text_entities d)))"
    if "fst (main_freecad_unfold env file fs0) = Inr resp" "status_code resp = 200" for resp
  proof -
    from facts that obtain fr fi dd pl pn u ob bb where
      "resp = main_freecad_success env fr fi dd pl pn u bb"
      "expected_import env (Import_insert env) (file_suffix env file) (up_bytes file)
         = Some (pl, pn, u, ob)"
      by blast
    with sfx rd expected_import_dxf [of env "Import_insert env" "up_bytes file" pl pn u ob d]
    show ?thesis
      by (simp add: json_main_freecad_success expected_units_detect)
  qed
  with sc show ?thesis
    by (cases "fst (main_freecad_unfold env file fs0)")
      (simp_all add: returned_status_def returned_field_def)
qed

lemma main_dxf_run:
  assumes sfx: "file_suffix env file = ''.dxf''"
    and rd: "ezdxf_readfile env (up_bytes file) = Inr d"
  shows "scale_calls (trace (snd (main_unfold env file fs0))) =
           (if \<exists>q. (ezdxf_readfile_call q, None) \<in> set (trace (snd (main_unfold env file fs0)))
            then scaled_calls env d else [])
     \<and> (returned_status (fst (main_unfold env file fs0)) = Some 200 \<longrightarrow>
          returned_field (fst (main_unfold env file fs0)) ''dxf_units''
            = Some (JStr (fst (detect_units (insunits d))))
          \<and> returned_field (fst (main_unfold env file fs0)) ''parsed_layers''
            = Some (JList (map JStr (layers d)))
          \<and> returned_field (fst (main_unfold env file fs0)) ''parsed_notes''
            = Some (JList (map JStr (text_entities d))))"
proof -
  note facts = main_unfold_facts [of env "file" fs0]
  have sc: "scale_calls (trace (snd (main_unfold env file fs0))) =
           (if \<exists>q. (ezdxf_readfile_call q, None) \<in> set (trace (snd (main_unfold env file fs0)))
            then scaled_calls env d else [])"
    using facts sfx rd by (simp add: dispatch_facts_def)
  have "json_get (content resp) ''dxf_units'' = Some (JStr (fst (detect_units (insunits d))))
      \<and> json_get (content resp) ''parsed_layers'' = Some (JList (map JStr (layers d)))
      \<and> json_get (content resp) ''parsed_notes'' = Some (JList (map JStr (text_entities d)))"
    if "fst (main_unfold env file fs0) = Inr resp" "status_code resp = 200" for resp
  proof -
    from facts that obtain fr dd pl pn u ob bb where
      "resp = main_success fr dd pl pn u bb"
      "expected_import env (Import_importDXF env) (file_suffix env file) (up_bytes file)
         = Some (pl, pn, u, ob)"
      by blast
    with sfx rd expected_import_dxf [of env "Import_importDXF env" "up_bytes file" pl pn u ob d]
    show ?thesis
      by (simp add: json_main_success expected_units_detect)
  qed
  with sc show ?thesis
    by (cases "fst (main_unfold env file fs0)")
      (simp_all add: returned_status_def returned_field_def)
qed

section \<open>Rejection of oversize uploads\<close>

text \<open>
  Claim C3. In \<^verbatim>\<open>main_freecad.py\<close>, an upload of more than 2 MB (2097152 bytes, the
  test \<^verbatim>\<open>size_mb > 2\<close>) is answered with status 413 and the body
  \<^verbatim>\<open>{"error": "File too large. Max 2MB"}\<close>; the filesystem is left as it was (no temporary
  file is written) and no library call is made, so the CAD kernel is never entered.
\<close>

theorem oversize_rejected:
  assumes "2097152 < length (up_bytes file)"
  shows "fst (main_freecad_unfold env file fs0) =
           Inr \<lparr>status_code = 413,
                content = JObj [(''error'', JStr ''File too large. Max 2MB'')]\<rparr>
         \<and> fs (snd (main_freecad_unfold env file fs0)) = fs0
         \<and> trace (snd (main_freecad_unfold env file fs0)) = []"
  using assms
  by (simp add: main_freecad_unfold_def main_freecad_unfold_body_def size_mb_gt run_finally_def
      cleanup_def remove_if_exists_def then_do_def return_def init_st_def)

theorem oversize_rejected_witness:
  "2097152 < length (up_bytes ex_big_upload)
   \<and> returned_status (fst (main_freecad_unfold ex_plain_env ex_big_upload Map.empty)) = Some 413
   \<and> trace (snd (main_freecad_unfold ex_plain_env ex_big_upload Map.empty)) = []"
  using oversize_rejected [of ex_big_upload ex_plain_env Map.empty]
  by (simp add: ex_big_upload_def returned_status_def)

section \<open>Rejection of unsupported MIME types\<close>

text \<open>
  Claim C4. In \<^verbatim>\<open>main_freecad.py\<close> the MIME type is detected (by
  \<^verbatim>\<open>magic.from_buffer\<close> on the first 2048 bytes) once the size check has passed. When the
  detected type is none of \<^verbatim>\<open>application/dxf\<close>, \<^verbatim>\<open>application/octet-stream\<close>,
  \<^verbatim>\<open>text/plain\<close>, the answer is status 415 with the body
  \<^verbatim>\<open>{"error": "Unsupported file type", "detected_mime": mime}\<close>; the filesystem is left as
  it was and the MIME detection is the only library call of the request.
\<close>

theorem wrong_mime_rejected:
  assumes "\<not> 2097152 < length (up_bytes file)"
    and "magic_from_buffer env (take 2048 (up_bytes file)) = Inr mime"
    and "mime \<notin> set allowed_mimes"
  shows "fst (main_freecad_unfold env file fs0) =
           Inr \<lparr>status_code = 415,
                content = JObj [(''error'', JStr ''Unsupported file type''),
                                (''detected_mime'', JStr mime)]\<rparr>
         \<and> fs (snd (main_freecad_unfold env file fs0)) = fs0
         \<and> trace (snd (main_freecad_unfold env file fs0)) =
             [(magic_from_buffer_call (take 2048 (up_bytes file)), None)]"
  using assms
  by (simp add: main_freecad_unfold_def main_freecad_unfold_body_def size_mb_gt step_def
      return_def run_finally_def cleanup_def remove_if_exists_def then_do_def init_st_def)

theorem wrong_mime_rejected_witness:
  "\<not> 2097152 < length (up_bytes ex_step_upload)
   \<and> magic_from_buffer ex_png_env (take 2048 (up_bytes ex_step_upload)) = Inr ''image/png''
   \<and> ''image/png'' \<notin> set allowed_mimes
   \<and> returned_status (fst (main_freecad_unfold ex_png_env ex_step_upload Map.empty)) = Some 415
   \<and> returned_field (fst (main_freecad_unfold ex_png_env ex_step_upload Map.empty))
        ''detected_mime'' = Some (JStr ''image/png'')"
  using wrong_mime_rejected [of ex_step_upload ex_png_env "''image/png''" Map.empty]
  by (simp add: ex_defs allowed_mimes_def json_get_def returned_status_def returned_field_def)

section \<open>Exceptions at the request boundary\<close>

text \<open>
  Claim C5, as stated, fails twice. An exception raised by \<^verbatim>\<open>scale_uniform\<close> on the DXF
  path is caught by the loop's own \<^verbatim>\<open>except Exception: continue\<close>, and the request can
  still end with status 200. And an exception raised by \<^verbatim>\<open>os.remove\<close> in the \<^verbatim>\<open>finally\<close>
  block, which lies outside every \<^verbatim>\<open>except\<close> clause, leaves the handler.
\<close>

theorem swallowed_scale_exception:
  "(scale_uniform_call 0.03937 Unsupported, Some (Exn ''NotImplementedError''))
     \<in> set (trace (snd (main_freecad_unfold ex_mm_env ex_dxf_upload Map.empty)))
   \<and> returned_status (fst (main_freecad_unfold ex_mm_env ex_dxf_upload Map.empty)) = Some 200
   \<and> fst (main_freecad_unfold ex_remove_fails_env ex_step_upload Map.empty)
       = Inl (Exn ''PermissionError'')
   \<and> fst (main_unfold ex_remove_fails_env ex_step_upload Map.empty)
       = Inl (Exn ''PermissionError'')"
  by (simp add: run_defs ex_defs returned_status_def)

text \<open>
  Claim C5, amended. For every request, in both variants of the handler:
  \<^item> an exception (an instance of \<^verbatim>\<open>Exception\<close>) raised by a call inside the \<^verbatim>\<open>try\<close>
    block, other than one raised by \<^verbatim>\<open>scale_uniform\<close>, is caught: the response that the
    handler returns has status 500 and a body of exactly the two fields \<^verbatim>\<open>error\<close> and
    \<^verbatim>\<open>details\<close>, where in \<^verbatim>\<open>main_freecad.py\<close> the details are \<^verbatim>\<open>str(e)\<close> of that
    exception, and in \<^verbatim>\<open>main.py\<close> the error is \<^verbatim>\<open>"Unfolding failed"\<close> and the details are
    the traceback;
  \<^item> when \<^verbatim>\<open>os.remove\<close> does not raise, the handler returns a response;
  \<^item> an exception leaves the handler only when it was raised by \<^verbatim>\<open>os.remove\<close> in the
    \<^verbatim>\<open>finally\<close> block.
\<close>

theorem exceptions_become_500:
  "((c, Some e) \<in> set (trace (snd (main_freecad_unfold env file fs0)))
      \<and> \<not> is_scale_call c \<and> \<not> is_remove_call c
      \<and> fst (main_freecad_unfold env file fs0) = Inr resp \<longrightarrow>
      status_code resp = 500
      \<and> (\<exists>msg. content resp = JObj [(''error'', JStr msg), (''details'', JStr (str e))]))
   \<and> ((c, Some e) \<in> set (trace (snd (main_unfold env file fs0)))
      \<and> \<not> is_scale_call c \<and> \<not> is_remove_call c
      \<and> fst (main_unfold env file fs0) = Inr resp \<longrightarrow>
      status_code resp = 500
      \<and> content resp =
          JObj [(''error'', JStr ''Unfolding failed''), (''details'', JStr (format_exc env e))])
   \<and> ((\<forall>p. os_remove env p = Inr ()) \<longrightarrow>
        (\<exists>resp. fst (main_freecad_unfold env file fs0) = Inr resp)
        \<and> (\<exists>resp. fst (main_unfold env file fs0) = Inr resp))
   \<and> (fst (main_freecad_unfold env file fs0) = Inl e' \<longrightarrow>
        (\<exists>p. (os_remove_call p, Some e') \<in> set (trace (snd (main_freecad_unfold env file fs0)))))
   \<and> (fst (main_unfold env file fs0) = Inl e' \<longrightarrow>
        (\<exists>p. (os_remove_call p, Some e') \<in> set (trace (snd (main_unfold env file fs0)))))"
proof -
  from main_freecad_unfold_cases [of env "file" fs0]
  obtain r s rem where b: "main_freecad_unfold_body env file (init_st fs0) = (r, s)"
    and t: "trace (snd (main_freecad_unfold env file fs0)) = trace s @ rem"
    and rem: "only_removes rem"
    and f: "\<forall>resp. fst (main_freecad_unfold env file fs0) = Inr resp \<longrightarrow>
           resp = (case r of Inl e \<Rightarrow> error_response 500 ''Request failed'' (str e)
                   | Inr resp' \<Rightarrow> resp')"
    and esc: "\<forall>e. fst (main_freecad_unfold env file fs0) = Inl e \<longrightarrow>
           (\<exists>p. (os_remove_call p, Some e) \<in> set rem)"
    and ok: "(\<forall>p. os_remove env p = Inr ()) \<longrightarrow>
           fst (main_freecad_unfold env file fs0) =
             Inr (case r of Inl e \<Rightarrow> error_response 500 ''Request failed'' (str e)
                  | Inr resp' \<Rightarrow> resp')"
    by blast
  from main_unfold_cases [of env "file" fs0]
  obtain r' s' rem' where b': "main_unfold_body env file (init_st fs0) = (r', s')"
    and t': "trace (snd (main_unfold env file fs0)) = trace s' @ rem'"
    and rem': "only_removes rem'"
    and f': "\<forall>resp. fst (main_unfold env file fs0) = Inr resp \<longrightarrow>
           resp = (case r' of Inl e \<Rightarrow> error_response 500 ''Unfolding failed'' (format_exc env e)
                   | Inr resp' \<Rightarrow> resp')"
    and esc': "\<forall>e. fst (main_unfold env file fs0) = Inl e \<longrightarrow>
           (\<exists>p. (os_remove_call p, Some e) \<in> set rem')"
    and ok': "(\<forall>p. os_remove env p = Inr ()) \<longrightarrow>
           fst (main_unfold env file fs0) =
             Inr (case r' of Inl e \<Rightarrow> error_response 500 ''Unfolding failed'' (format_exc env e)
                  | Inr resp' \<Rightarrow> resp')"
    by blast
  have A: "status_code resp = 500
      \<and> (\<exists>msg. content resp = JObj [(''error'', JStr msg), (''details'', JStr (str e))])"
    if ev: "(c, Some e) \<in> set (trace (snd (main_freecad_unfold env file fs0)))"
      and ns: "\<not> is_scale_call c" and nr: "\<not> is_remove_call c"
      and ret: "fst (main_freecad_unfold env file fs0) = Inr resp"
  proof -
    from ev t rem nr have ev': "(c, Some e) \<in> set (trace s)"
      by (auto dest: only_removes_mem)
    from main_freecad_body_spec [OF b] have rd: "resp_disc (trace s) r"
      by simp
    show ?thesis
    proof (cases r)
      case (Inl e0)
      with rd have "raised_last (trace s) e0" by simp
      from raised_last_unique [OF this ev' ns] have "e = e0" .
      with Inl f [rule_format, OF ret] show ?thesis
        by (simp add: error_response_def)
    next
      case (Inr resp0)
      with rd ev' ns obtain e0 where "raised_last (trace s) e0"
        "resp0 = error_response 500 ''Unfolding failed'' (str e0)"
        by (auto simp: resp_disc_def dest: clean_no_raise)
      moreover from raised_last_unique [OF this(1) ev' ns] have "e = e0" .
      ultimately show ?thesis
        using Inr f [rule_format, OF ret] by (simp add: error_response_def)
    qed
  qed
  have B: "status_code resp = 500
      \<and> content resp =
          JObj [(''error'', JStr ''Unfolding failed''), (''details'', JStr (format_exc env e))]"
    if ev: "(c, Some e) \<in> set (trace (snd (main_unfold env file fs0)))"
      and ns: "\<not> is_scale_call c" and nr: "\<not> is_remove_call c"
      and ret: "fst (main_unfold env file fs0) = Inr resp"
  proof -
    from ev t' rem' nr have ev': "(c, Some e) \<in> set (trace s')"
      by (auto dest: only_removes_mem)
    from main_body_spec [OF b'] have rd: "resp_disc (trace s') r'"
      and form: "\<forall>resp. r' = Inr resp \<longrightarrow> status_code resp = 200"
      by auto
    have "\<exists>e0. r' = Inl e0"
    proof (cases r')
      case (Inr resp0)
      with rd form ev' ns show ?thesis
        by (auto simp: resp_disc_def dest: clean_no_raise)
    qed simp
    then obtain e0 where Inl: "r' = Inl e0" by blast
    with rd have "raised_last (trace s') e0" by simp
    from raised_last_unique [OF this ev' ns] have "e = e0" .
    with Inl f' [rule_format, OF ret] show ?thesis
      by (simp add: error_response_def)
  qed
  have C: "(\<forall>p. os_remove env p = Inr ()) \<longrightarrow>
        (\<exists>resp. fst (main_freecad_unfold env file fs0) = Inr resp)
        \<and> (\<exists>resp. fst (main_unfold env file fs0) = Inr resp)"
    using ok ok' by blast
  have D: "fst (main_freecad_unfold env file fs0) = Inl e' \<longrightarrow>
        (\<exists>p. (os_remove_call p, Some e') \<in> set (trace (snd (main_freecad_unfold env file fs0))))"
    using esc t by auto
  have E: "fst (main_unfold env file fs0) = Inl e' \<longrightarrow>
        (\<exists>p. (os_remove_call p, Some e') \<in> set (trace (snd (main_unfold env file fs0))))"
    using esc' t' by auto
  from A B C D E show ?thesis
    by blast
qed

theorem exceptions_become_500_witness:
  "(Part_read_call ''/tmp/tmpk3v9.step'', Some (Exn ''Cannot read shape''))
     \<in> set (trace (snd (main_freecad_unfold ex_plain_env ex_broken_upload Map.empty)))
   \<and> \<not> is_scale_call (Part_read_call ''/tmp/tmpk3v9.step'' :: ex_entity call)
   \<and> \<not> is_remove_call (Part_read_call ''/tmp/tmpk3v9.step'' :: ex_entity call)
   \<and> fst (main_freecad_unfold ex_plain_env ex_broken_upload Map.empty)
       = Inr (error_response 500 ''Request failed'' ''Cannot read shape'')
   \<and> (Part_read_call ''/tmp/tmpk3v9.step'', Some (Exn ''Cannot read shape''))
     \<in> set (trace (snd (main_unfold ex_plain_env ex_broken_upload Map.empty)))
   \<and> fst (main_unfold ex_plain_env ex_broken_upload Map.empty)
       = Inr (error_response 500 ''Unfolding failed''
                ''Traceback (most recent call last): Cannot read shape'')
   \<and> (\<forall>p. os_remove ex_plain_env p = Inr ())
   \<and> status_code (error_response 500 ''Request failed'' ''Cannot read shape'') = 500
   \<and> fst (main_freecad_unfold ex_remove_fails_env ex_step_upload Map.empty)
       = Inl (Exn ''PermissionError'')
   \<and> (\<exists>p. (os_remove_call p, Some (Exn ''PermissionError''))
          \<in> set (trace (snd (main_freecad_unfold ex_remove_fails_env ex_step_upload Map.empty))))"
proof -
  have f: "(Part_read_call ''/tmp/tmpk3v9.step'', Some (Exn ''Cannot read shape''))
     \<in> set (trace (snd (main_freecad_unfold ex_plain_env ex_broken_upload Map.empty)))"
    "fst (main_freecad_unfold ex_plain_env ex_broken_upload Map.empty)
       = Inr (error_response 500 ''Request failed'' ''Cannot read shape'')"
    by (simp_all add: run_defs ex_defs)
  have m: "(Part_read_call ''/tmp/tmpk3v9.step'', Some (Exn ''Cannot read shape''))
     \<in> set (trace (snd (main_unfold ex_plain_env ex_broken_upload Map.empty)))"
    "fst (main_unfold ex_plain_env ex_broken_upload Map.empty)
       = Inr (error_response 500 ''Unfolding failed''
                ''Traceback (most recent call last): Cannot read shape'')"
    by (simp_all add: run_defs ex_defs)
  have r: "\<forall>p. os_remove ex_plain_env p = Inr ()"
    by (simp add: ex_defs)
  have x: "fst (main_freecad_unfold ex_remove_fails_env ex_step_upload Map.empty)
       = Inl (Exn ''PermissionError'')"
    by (simp add: run_defs ex_defs)
  show ?thesis
    using f m r x
      exceptions_become_500 [of "Part_read_call ''/tmp/tmpk3v9.step''" "Exn ''Cannot read shape''"
        ex_plain_env ex_broken_upload Map.empty
        "error_response 500 ''Request failed'' ''Cannot read shape''"
        "Exn ''PermissionError''"]
      exceptions_become_500 [of "Part_read_call ''/tmp/tmpk3v9.step''" "Exn ''Cannot read shape''"
        ex_remove_fails_env ex_step_upload Map.empty
        "error_response 500 ''Request failed'' ''Cannot read shape''"
        "Exn ''PermissionError''"]
    by simp
qed

section \<open>Units and rescaling of DXF uploads\<close>

text \<open>
  Claim C2, as stated, fails in its second half: with \<^verbatim>\<open>$INSUNITS = 4\<close> an entity whose
  \<^verbatim>\<open>scale_uniform\<close> raises is skipped by \<^verbatim>\<open>except Exception: continue\<close> and stays
  unscaled, while the request goes on and reports \<^verbatim>\<open>mm\<close>.
\<close>

theorem unsupported_entity_not_scaled:
  "insunits (ex_doc (Some 4) [Point 1, Unsupported]) = 4
   \<and> ezdxf_readfile ex_mm_env (up_bytes ex_dxf_upload) = Inr (ex_doc (Some 4) [Point 1, Unsupported])
   \<and> scale_calls (trace (snd (main_unfold ex_mm_env ex_dxf_upload Map.empty)))
       = [(0.03937, Point 1, None), (0.03937, Unsupported, Some (Exn ''NotImplementedError''))]
   \<and> fst (scale_all ex_mm_env 0.03937 [Point 1, Unsupported] (init_st Map.empty))
       = [Point 0.03937, Unsupported]
   \<and> returned_status (fst (main_unfold ex_mm_env ex_dxf_upload Map.empty)) = Some 200
   \<and> returned_field (fst (main_unfold ex_mm_env ex_dxf_upload Map.empty)) ''dxf_units''
       = Some (JStr ''mm'')"
  by (simp add: run_defs ex_defs json_get_def returned_status_def returned_field_def)

text \<open>
  Claim C2, amended. For an uploaded \<^verbatim>\<open>.dxf\<close> file that the DXF parser reads as \<open>d\<close>, in
  both variants of the handler:
  \<^item> with \<^verbatim>\<open>$INSUNITS = 1\<close> the scaling factor stays \<^verbatim>\<open>1.0\<close>, \<^verbatim>\<open>scale_uniform\<close> is never
    called, and a successful response reports \<^verbatim>\<open>dxf_units\<close> as \<^verbatim>\<open>inch\<close>;
  \<^item> with \<^verbatim>\<open>$INSUNITS = 4\<close> the scaling factor is \<^verbatim>\<open>0.03937\<close>; once the parser has run,
    \<^verbatim>\<open>scale_uniform(0.03937)\<close> is called exactly once on every modelspace entity, in
    order, and a successful response reports \<^verbatim>\<open>dxf_units\<close> as \<^verbatim>\<open>mm\<close>;
  \<^item> the loop replaces an entity by its scaled version when the call returns and leaves
    it as it was when the call raises.
\<close>

theorem insunits_scaling:
  assumes "file_suffix env file = ''.dxf''"
    and "ezdxf_readfile env (up_bytes file) = Inr d"
  shows
    "(insunits d = 1 \<longrightarrow>
        detect_units (insunits d) = (''inch'', 1)
        \<and> scale_calls (trace (snd (main_freecad_unfold env file fs0))) = []
        \<and> scale_calls (trace (snd (main_unfold env file fs0))) = []
        \<and> (returned_status (fst (main_freecad_unfold env file fs0)) = Some 200 \<longrightarrow>
             returned_field (fst (main_freecad_unfold env file fs0)) ''dxf_units''
               = Some (JStr ''inch''))
        \<and> (returned_status (fst (main_unfold env file fs0)) = Some 200 \<longrightarrow>
             returned_field (fst (main_unfold env file fs0)) ''dxf_units''
               = Some (JStr ''inch'')))
     \<and> (insunits d = 4 \<longrightarrow>
        detect_units (insunits d) = (''mm'', 0.03937)
        \<and> scale_calls (trace (snd (main_freecad_unfold env file fs0))) =
            (if \<exists>q. (ezdxf_readfile_call q, None)
                       \<in> set (trace (snd (main_freecad_unfold env file fs0)))
             then map (\<lambda>e. (0.03937, e, outcome (scale_uniform env 0.03937 e))) (modelspace d)
             else [])
        \<and> scale_calls (trace (snd (main_unfold env file fs0))) =
            (if \<exists>q. (ezdxf_readfile_call q, None) \<in> set (trace (snd (main_unfold env file fs0)))
             then map (\<lambda>e. (0.03937, e, outcome (scale_uniform env 0.03937 e))) (modelspace d)
             else [])
        \<and> (returned_status (fst (main_freecad_unfold env file fs0)) = Some 200 \<longrightarrow>
             returned_field (fst (main_freecad_unfold env file fs0)) ''dxf_units''
               = Some (JStr ''mm''))
        \<and> (returned_status (fst (main_unfold env file fs0)) = Some 200 \<longrightarrow>
             returned_field (fst (main_unfold env file fs0)) ''dxf_units''
               = Some (JStr ''mm'')))
     \<and> fst (scale_all env f es s) =
         map (\<lambda>e. case scale_uniform env f e of Inl _ \<Rightarrow> e | Inr e' \<Rightarrow> e') es"
  using main_freecad_dxf_run [OF assms, of fs0] main_dxf_run [OF assms, of fs0]
  by (simp add: scale_all_eq scaled_calls_def detect_units_def)

theorem insunits_scaling_witness:
  "file_suffix ex_inch_env ex_dxf_upload = ''.dxf''
   \<and> ezdxf_readfile ex_inch_env (up_bytes ex_dxf_upload) = Inr (ex_doc (Some 1) [Point 1, Point 2])
   \<and> insunits (ex_doc (Some 1) [Point 1, Point 2]) = 1
   \<and> returned_status (fst (main_freecad_unfold ex_inch_env ex_dxf_upload Map.empty)) = Some 200
   \<and> scale_calls (trace (snd (main_freecad_unfold ex_inch_env ex_dxf_upload Map.empty))) = []
   \<and> returned_field (fst (main_freecad_unfold ex_inch_env ex_dxf_upload Map.empty))
        ''dxf_units'' = Some (JStr ''inch'')
   \<and> file_suffix ex_mm_points_env ex_dxf_upload = ''.dxf''
   \<and> ezdxf_readfile ex_mm_points_env (up_bytes ex_dxf_upload)
        = Inr (ex_doc (Some 4) [Point 1, Point 2])
   \<and> insunits (ex_doc (Some 4) [Point 1, Point 2]) = 4
   \<and> returned_status (fst (main_unfold ex_mm_points_env ex_dxf_upload Map.empty)) = Some 200
   \<and> (ezdxf_readfile_call ''/tmp/tmpk3v9.dxf'', None)
        \<in> set (trace (snd (main_unfold ex_mm_points_env ex_dxf_upload Map.empty)))
   \<and> scale_calls (trace (snd (main_unfold ex_mm_points_env ex_dxf_upload Map.empty)))
        = [(0.03937, Point 1, None), (0.03937, Point 2, None)]
   \<and> returned_field (fst (main_unfold ex_mm_points_env ex_dxf_upload Map.empty))
        ''dxf_units'' = Some (JStr ''mm'')"
proof -
  have sfx: "file_suffix ex_inch_env ex_dxf_upload = ''.dxf''"
    and sfx4: "file_suffix ex_mm_points_env ex_dxf_upload = ''.dxf''"
    by (simp_all add: run_defs ex_defs)
  have r1: "ezdxf_readfile ex_inch_env (up_bytes ex_dxf_upload)
              = Inr (ex_doc (Some 1) [Point 1, Point 2])"
    by (simp add: ex_defs)
  have r4: "ezdxf_readfile ex_mm_points_env (up_bytes ex_dxf_upload)
              = Inr (ex_doc (Some 4) [Point 1, Point 2])"
    by (simp add: ex_defs)
  have u1: "insunits (ex_doc (Some 1) [Point 1, Point 2]) = 1"
    and u4: "insunits (ex_doc (Some 4) [Point 1, Point 2]) = 4"
    by (simp_all add: insunits_def ex_doc_def)
  have s1: "returned_status (fst (main_freecad_unfold ex_inch_env ex_dxf_upload Map.empty))
              = Some 200"
    by (simp add: run_defs ex_defs returned_status_def)
  have s4: "returned_status (fst (main_unfold ex_mm_points_env ex_dxf_upload Map.empty))
              = Some 200"
    by (simp add: run_defs ex_defs returned_status_def)
  have p4: "(ezdxf_readfile_call ''/tmp/tmpk3v9.dxf'', None)
        \<in> set (trace (snd (main_unfold ex_mm_points_env ex_dxf_upload Map.empty)))"
    by (simp add: run_defs ex_defs)
  have sc: "scale_uniform ex_mm_points_env = ex_scale"
    "modelspace (ex_doc (Some 4) [Point 1, Point 2]) = [Point 1, Point 2]"
    by (simp_all add: ex_defs)
  from p4 have ex4: "\<exists>q. (ezdxf_readfile_call q, None)
        \<in> set (trace (snd (main_unfold ex_mm_points_env ex_dxf_upload Map.empty)))"
    by blast
  show ?thesis
    using insunits_scaling [OF sfx r1, of Map.empty] insunits_scaling [OF sfx4 r4, of Map.empty]
      sfx sfx4 r1 r4 u1 u4 s1 s4 p4 ex4 sc
    by simp
qed

text \<open>
  Claim C10. For an uploaded \<^verbatim>\<open>.dxf\<close> file that the DXF parser reads as \<open>d\<close> with an
  \<^verbatim>\<open>$INSUNITS\<close> value that is neither 1 nor 4 (an absent header variable counts as 0), in
  both variants of the handler the detected units are \<^verbatim>\<open>unknown\<close> with scaling factor
  \<^verbatim>\<open>1.0\<close>, \<^verbatim>\<open>scale_uniform\<close> is never called, and a successful response reports
  \<^verbatim>\<open>dxf_units\<close> as \<^verbatim>\<open>unknown\<close>.
\<close>

theorem other_units_unknown:
  assumes "file_suffix env file = ''.dxf''"
    and "ezdxf_readfile env (up_bytes file) = Inr d"
    and "insunits d \<noteq> 1" and "insunits d \<noteq> 4"
  shows
    "detect_units (insunits d) = (''unknown'', 1)
     \<and> scale_calls (trace (snd (main_freecad_unfold env file fs0))) = []
     \<and> scale_calls (trace (snd (main_unfold env file fs0))) = []
     \<and> (returned_status (fst (main_freecad_unfold env file fs0)) = Some 200 \<longrightarrow>
          returned_field (fst (main_freecad_unfold env file fs0)) ''dxf_units''
            = Some (JStr ''unknown''))
     \<and> (returned_status (fst (main_unfold env file fs0)) = Some 200 \<longrightarrow>
          returned_field (fst (main_unfold env file fs0)) ''dxf_units''
            = Some (JStr ''unknown''))
     \<and> (header d ''$INSUNITS'' = None \<longrightarrow> insunits d = 0)"
  using main_freecad_dxf_run [OF assms(1,2), of fs0] main_dxf_run [OF assms(1,2), of fs0] assms(3,4)
  by (simp add: scaled_calls_def detect_units_def insunits_def)

theorem other_units_unknown_witness:
  "file_suffix ex_no_units_env ex_dxf_upload = ''.dxf''
   \<and> ezdxf_readfile ex_no_units_env (up_bytes ex_dxf_upload) = Inr (ex_doc None [Point 1])
   \<and> insunits (ex_doc None [Point 1]) \<noteq> 1 \<and> insunits (ex_doc None [Point 1]) \<noteq> 4
   \<and> header (ex_doc None [Point 1]) ''$INSUNITS'' = None
   \<and> returned_status (fst (main_freecad_unfold ex_no_units_env ex_dxf_upload Map.empty)) = Some 200
   \<and> returned_status (fst (main_unfold ex_no_units_env ex_dxf_upload Map.empty)) = Some 200
   \<and> returned_field (fst (main_freecad_unfold ex_no_units_env ex_dxf_upload Map.empty))
        ''dxf_units'' = Some (JStr ''unknown'')
   \<and> returned_field (fst (main_unfold ex_no_units_env ex_dxf_upload Map.empty))
        ''dxf_units'' = Some (JStr ''unknown'')
   \<and> scale_calls (trace (snd (main_freecad_unfold ex_no_units_env ex_dxf_upload Map.empty))) = []"
proof -
  have sfx: "file_suffix ex_no_units_env ex_dxf_upload = ''.dxf''"
    by (simp add: run_defs ex_defs)
  have r: "ezdxf_readfile ex_no_units_env (up_bytes ex_dxf_upload) = Inr (ex_doc None [Point 1])"
    by (simp add: ex_defs)
  have h: "header (ex_doc None [Point 1]) ''$INSUNITS'' = None"
    by (simp add: ex_doc_def)
  have u: "insunits (ex_doc None [Point 1]) \<noteq> 1" "insunits (ex_doc None [Point 1]) \<noteq> 4"
    by (simp_all add: insunits_def ex_doc_def)
  have s: "returned_status (fst (main_freecad_unfold ex_no_units_env ex_dxf_upload Map.empty))
             = Some 200"
    "returned_status (fst (main_unfold ex_no_units_env ex_dxf_upload Map.empty)) = Some 200"
    by (simp_all add: run_defs ex_defs returned_status_def)
  show ?thesis
    using other_units_unknown [OF sfx r u, of Map.empty] sfx r h u s
    by simp
qed

section \<open>The fields of a successful response\<close>




section \<open>Files that are no DXF\<close>

lemma then_do_Inr: "m s = (Inr x, s') \<Longrightarrow> then_do m f s = f x s'"
  by (simp add: then_do_def)

lemma then_do_Inl: "m s = (Inl e, s') \<Longrightarrow> then_do m f s = (Inl e, s')"
  by (simp add: then_do_def)

lemma write_upload_forward:
  assumes "upload_tmp_stem env = Inr stem" "tmp_write env bytes = Inr ()"
  shows "\<exists>s1. write_upload env suffix bytes s = (Inr (stem @ suffix), s1)
           \<and> fs s1 (stem @ suffix) = Some bytes"
  using assms
  by (simp add: write_upload_def then_do_def step_def return_def Let_def)

lemma main_freecad_body_after_upload:
  assumes "accepted env file"
    and "upload_tmp_stem env = Inr stem" "tmp_write env (up_bytes file) = Inr ()"
  shows "\<exists>s1. fs s1 (stem @ file_suffix env file) = Some (up_bytes file)
     \<and> main_freecad_unfold_body env file (init_st fs0) =
         then_do (import_shape env Import_insert_call (Import_insert env) (file_suffix env file)
                    (stem @ file_suffix env file))
           (\<lambda>(parsed_layers, parsed_notes, units_detected, ob).
              main_freecad_unfolding env parsed_layers parsed_notes units_detected ob) s1"
proof -
  from assms(1) obtain mime where
    m: "magic_from_buffer env (take 2048 (up_bytes file)) = Inr mime" "mime \<in> set allowed_mimes"
    and sz: "\<not> 2 < size_mb (length (up_bytes file))"
    by (auto simp: accepted_def split: sum.splits)
  from write_upload_forward [OF assms(2,3)] obtain s1 where
    "write_upload env (file_suffix env file) (up_bytes file)
       ((init_st fs0)\<lparr>trace := trace (init_st fs0)
          @ [(magic_from_buffer_call (take 2048 (up_bytes file)), None)]\<rparr>)
       = (Inr (stem @ file_suffix env file), s1)"
    "fs s1 (stem @ file_suffix env file) = Some (up_bytes file)"
    by blast
  with m sz show ?thesis
    by (auto simp: main_freecad_unfold_body_def then_do_step then_do_Inr)
qed

lemma main_body_after_upload:
  assumes "upload_tmp_stem env = Inr stem" "tmp_write env (up_bytes file) = Inr ()"
  shows "\<exists>s1. fs s1 (stem @ file_suffix env file) = Some (up_bytes file)
     \<and> main_unfold_body env file (init_st fs0) =
         then_do (import_shape env Import_importDXF_call (Import_importDXF env)
                    (file_suffix env file) (stem @ file_suffix env file))
           (\<lambda>(parsed_layers, parsed_notes, units_detected, ob).
              main_unfolding env parsed_layers parsed_notes units_detected ob) s1"
proof -
  from write_upload_forward [OF assms] obtain s1 where
    "write_upload env (file_suffix env file) (up_bytes file) (init_st fs0)
       = (Inr (stem @ file_suffix env file), s1)"
    "fs s1 (stem @ file_suffix env file) = Some (up_bytes file)"
    by blast
  then show ?thesis
    by (auto simp: main_unfold_body_def then_do_Inr)
qed

lemma import_shape_part_read_fails:
  assumes "suffix \<noteq> ''.dxf''" "fs s p = Some bytes" "newDocument env = Inr ()"
    and "Part_read env bytes = Inl e"
  shows "fst (import_shape env ic imp suffix p s) = Inl e"
  using assms
  by (simp add: import_shape_def part_branch_def then_do_def step_def return_def read_file_def)

lemma import_shape_forward:
  assumes "fs s p = Some bytes" "newDocument env = Inr ()"
    and "expected_import env imp suffix bytes = Some x" "recompute env 0 = Inr ()"
  shows "fst (import_shape env ic imp suffix p s) = Inr x"
proof (cases "suffix = ''.dxf''")
  case True
  with assms(3) obtain d saved objs where
    "ezdxf_readfile env bytes = Inr d" "saveas env (rescaled env d) = Inr saved"
    "imp saved = Inr objs" "objs \<noteq> []"
    "x = (layers d, text_entities d, expected_units (insunits d), last objs)"
    by (auto simp: expected_import_def split: sum.splits if_splits)
  with True assms(1,2,4) show ?thesis
    by (simp add: import_shape_def dxf_branch_eq then_do_def step_def return_def read_file_def
        split: list.split)
next
  case False
  with assms(3) obtain shape where
    "Part_read env bytes = Inr shape" "x = ([], [], ''unknown'', \<lparr>truthy = True, Shape_BoundBox = Inr shape\<rparr>)"
    by (auto simp: expected_import_def split: sum.splits)
  with False assms(1,2,4) show ?thesis
    by (simp add: import_shape_def part_branch_def then_do_def step_def return_def read_file_def)
qed

text \<open>
  Claim C7. For an uploaded file whose lowercased extension is not \<^verbatim>\<open>.dxf\<close>, in both
  variants of the handler:
  \<^item> the request makes no call into the DXF text parser (no \<^verbatim>\<open>ezdxf.readfile\<close>, no
    \<^verbatim>\<open>scale_uniform\<close>, no \<^verbatim>\<open>saveas\<close>);
  \<^item> once the request is past validation (\<^verbatim>\<open>main_freecad.py\<close> only), the temporary file
    is written and the document is created, \<^verbatim>\<open>Part.read\<close> is called on the temporary
    file, and the call ends as \<^verbatim>\<open>Part.read\<close> ends on the uploaded bytes; when it raises,
    the response that the handler returns is the 500 response of the outer handler for that
    exception;
  \<^item> a successful response is built from the shape that \<^verbatim>\<open>Part.read\<close> gives for the
    uploaded bytes (\<^verbatim>\<open>thickness_mm\<close>, in \<^verbatim>\<open>main.py\<close> \<^verbatim>\<open>bounding_box_mm\<close>, are its extents)
    and reports \<^verbatim>\<open>parsed_layers\<close> and \<^verbatim>\<open>parsed_notes\<close> as empty lists and \<^verbatim>\<open>dxf_units\<close>
    as \<^verbatim>\<open>unknown\<close>.
\<close>

theorem non_dxf_goes_to_part_read:
  assumes "file_suffix env file \<noteq> ''.dxf''"
  shows
    "dxf_free (trace (snd (main_freecad_unfold env file fs0)))
     \<and> (accepted env file \<and> upload_tmp_stem env = Inr stem
          \<and> tmp_write env (up_bytes file) = Inr () \<and> newDocument env = Inr () \<longrightarrow>
          (Part_read_call (stem @ file_suffix env file), outcome (Part_read env (up_bytes file)))
             \<in> set (trace (snd (main_freecad_unfold env file fs0)))
          \<and> (Part_read env (up_bytes file) = Inl e
               \<and> fst (main_freecad_unfold env file fs0) = Inr resp \<longrightarrow>
               resp = error_response 500 ''Request failed'' (str e)))
     \<and> (fst (main_freecad_unfold env file fs0) = Inr resp \<and> status_code resp = 200 \<longrightarrow>
          (\<exists>shape. Part_read env (up_bytes file) = Inr shape
             \<and> json_get (content resp) ''thickness_mm'' = Some (JNum (ZLength shape)))
          \<and> json_get (content resp) ''parsed_layers'' = Some (JList [])
          \<and> json_get (content resp) ''parsed_notes'' = Some (JList [])
          \<and> json_get (content resp) ''dxf_units'' = Some (JStr ''unknown''))
     \<and> dxf_free (trace (snd (main_unfold env file fs0)))
     \<and> (upload_tmp_stem env = Inr stem
          \<and> tmp_write env (up_bytes file) = Inr () \<and> newDocument env = Inr () \<longrightarrow>
          (Part_read_call (stem @ file_suffix env file), outcome (Part_read env (up_bytes file)))
             \<in> set (trace (snd (main_unfold env file fs0)))
          \<and> (Part_read env (up_bytes file) = Inl e
               \<and> fst (main_unfold env file fs0) = Inr resp \<longrightarrow>
               resp = error_response 500 ''Unfolding failed'' (format_exc env e)))
     \<and> (fst (main_unfold env file fs0) = Inr resp \<and> status_code resp = 200 \<longrightarrow>
          (\<exists>shape. Part_read env (up_bytes file) = Inr shape
             \<and> json_get (content resp) ''bounding_box_mm'' =
                 Some (JObj [(''x'', JNum (XLength shape)), (''y'', JNum (YLength shape)),
                             (''z'', JNum (ZLength shape))]))
          \<and> json_get (content resp) ''parsed_layers'' = Some (JList [])
          \<and> json_get (content resp) ''parsed_notes'' = Some (JList [])
          \<and> json_get (content resp) ''dxf_units'' = Some (JStr ''unknown''))"
proof -
  note facts = main_freecad_unfold_facts [of env "file" fs0]
  note facts' = main_unfold_facts [of env "file" fs0]
  have F1: "dxf_free (trace (snd (main_freecad_unfold env file fs0)))"
    using facts assms by (cases "accepted env file") (simp_all add: dispatch_facts_def)
  have F2: "(Part_read_call (stem @ file_suffix env file), outcome (Part_read env (up_bytes file)))
             \<in> set (trace (snd (main_freecad_unfold env file fs0)))"
    if "accepted env file" "upload_tmp_stem env = Inr stem"
      "tmp_write env (up_bytes file) = Inr ()" "newDocument env = Inr ()"
    using facts assms that by (simp add: dispatch_facts_def)
  have F3: "resp = error_response 500 ''Request failed'' (str e)"
    if h: "accepted env file" "upload_tmp_stem env = Inr stem"
      "tmp_write env (up_bytes file) = Inr ()"
      and nd: "newDocument env = Inr ()"
      and pr: "Part_read env (up_bytes file) = Inl e"
      and ret: "fst (main_freecad_unfold env file fs0) = Inr resp"
  proof -
    from main_freecad_body_after_upload [OF h, of fs0] obtain s1 where
      s1: "fs s1 (stem @ file_suffix env file) = Some (up_bytes file)"
      and b: "main_freecad_unfold_body env file (init_st fs0) =
         then_do (import_shape env Import_insert_call (Import_insert env) (file_suffix env file)
                    (stem @ file_suffix env file))
           (\<lambda>(parsed_layers, parsed_notes, units_detected, ob).
              main_freecad_unfolding env parsed_layers parsed_notes units_detected ob) s1"
      by blast
    from import_shape_part_read_fails [OF assms s1 nd pr]
    obtain s2 where "import_shape env Import_insert_call (Import_insert env)
        (file_suffix env file) (stem @ file_suffix env file) s1 = (Inl e, s2)"
      by (metis prod.collapse)
    with b have b': "main_freecad_unfold_body env file (init_st fs0) = (Inl e, s2)"
      by (simp add: then_do_Inl)
    from main_freecad_unfold_cases [of env "file" fs0] b' ret show ?thesis
      by auto
  qed
  have F4: "(\<exists>shape. Part_read env (up_bytes file) = Inr shape
             \<and> json_get (content resp) ''thickness_mm'' = Some (JNum (ZLength shape)))
          \<and> json_get (content resp) ''parsed_layers'' = Some (JList [])
          \<and> json_get (content resp) ''parsed_notes'' = Some (JList [])
          \<and> json_get (content resp) ''dxf_units'' = Some (JStr ''unknown'')"
    if "fst (main_freecad_unfold env file fs0) = Inr resp" "status_code resp = 200"
  proof -
    from facts that obtain fr fi dd pl pn u ob bb where
      r: "resp = main_freecad_success env fr fi dd pl pn u bb"
      and e: "expected_import env (Import_insert env) (file_suffix env file) (up_bytes file)
                = Some (pl, pn, u, ob)"
      and bb: "Shape_BoundBox ob = Inr bb"
      by blast
    from expected_import_other [OF e assms] bb r show ?thesis
      by (auto simp: json_main_freecad_success)
  qed
  have M1: "dxf_free (trace (snd (main_unfold env file fs0)))"
    using facts' assms by (simp add: dispatch_facts_def)
  have M2: "(Part_read_call (stem @ file_suffix env file), outcome (Part_read env (up_bytes file)))
             \<in> set (trace (snd (main_unfold env file fs0)))"
    if "upload_tmp_stem env = Inr stem"
      "tmp_write env (up_bytes file) = Inr ()" "newDocument env = Inr ()"
    using facts' assms that by (simp add: dispatch_facts_def)
  have M3: "resp = error_response 500 ''Unfolding failed'' (format_exc env e)"
    if h: "upload_tmp_stem env = Inr stem" "tmp_write env (up_bytes file) = Inr ()"
      and nd: "newDocument env = Inr ()"
      and pr: "Part_read env (up_bytes file) = Inl e"
      and ret: "fst (main_unfold env file fs0) = Inr resp"
  proof -
    from main_body_after_upload [OF h, of fs0] obtain s1 where
      s1: "fs s1 (stem @ file_suffix env file) = Some (up_bytes file)"
      and b: "main_unfold_body env file (init_st fs0) =
         then_do (import_shape env Import_importDXF_call (Import_importDXF env)
                    (file_suffix env file) (stem @ file_suffix env file))
           (\<lambda>(parsed_layers, parsed_notes, units_detected, ob).
              main_unfolding env parsed_layers parsed_notes units_detected ob) s1"
      by blast
    from import_shape_part_read_fails [OF assms s1 nd pr]
    obtain s2 where "import_shape env Import_importDXF_call (Import_importDXF env)
        (file_suffix env file) (stem @ file_suffix env file) s1 = (Inl e, s2)"
      by (metis prod.collapse)
    with b have b': "main_unfold_body env file (init_st fs0) = (Inl e, s2)"
      by (simp add: then_do_Inl)
    from main_unfold_cases [of env "file" fs0] b' ret show ?thesis
      by auto
  qed
  have M4: "(\<exists>shape. Part_read env (up_bytes file) = Inr shape
             \<and> json_get (content resp) ''bounding_box_mm'' =
                 Some (JObj [(''x'', JNum (XLength shape)), (''y'', JNum (YLength shape)),
                             (''z'', JNum (ZLength shape))]))
          \<and> json_get (content resp) ''parsed_layers'' = Some (JList [])
          \<and> json_get (content resp) ''parsed_notes'' = Some (JList [])
          \<and> json_get (content resp) ''dxf_units'' = Some (JStr ''unknown'')"
    if "fst (main_unfold env file fs0) = Inr resp" "status_code resp = 200"
  proof -
    from facts' that obtain fr dd pl pn u ob bb where
      r: "resp = main_success fr dd pl pn u bb"
      and e: "expected_import env (Import_importDXF env) (file_suffix env file) (up_bytes file)
                = Some (pl, pn, u, ob)"
      and bb: "Shape_BoundBox ob = Inr bb"
      by blast
    from expected_import_other [OF e assms] bb r show ?thesis
      by (auto simp: json_main_success)
  qed
  from F1 F2 F3 F4 M1 M2 M3 M4 show ?thesis
    by blast
qed

theorem non_dxf_goes_to_part_read_witness:
  "file_suffix ex_plain_env ex_step_upload \<noteq> ''.dxf''
   \<and> accepted ex_plain_env ex_step_upload
   \<and> upload_tmp_stem ex_plain_env = Inr ''/tmp/tmpk3v9''
   \<and> tmp_write ex_plain_env (up_bytes ex_step_upload) = Inr ()
   \<and> newDocument ex_plain_env = Inr ()
   \<and> Part_read ex_plain_env (up_bytes ex_step_upload)
       = Inr \<lparr>XLength = 100, YLength = 50, ZLength = 2\<rparr>
   \<and> fst (main_freecad_unfold ex_plain_env ex_step_upload Map.empty) =
       Inr \<lparr>status_code = 200,
          content = JObj
            [(''flat_pattern'', JObj [(''flat_x_mm'', JNum 120), (''flat_y_mm'', JNum 50)]),
             (''flat_pattern_in'', JObj [(''flat_x_in'', JNum 4.724), (''flat_y_in'', JNum 1.969)]),
             (''thickness_mm'', JNum 2),
             (''thickness_in'', JNum 0.079),
             (''parsed_layers'', JList []),
             (''parsed_notes'', JList []),
             (''dxf_units'', JStr ''unknown''),
             (''customer_name'', JNull),
             (''part_number'', JNull),
             (''part_description'', JNull),
             (''flat_dxf'', JStr ''0 SECTION flat'')]\<rparr>
   \<and> fst (main_unfold ex_plain_env ex_step_upload Map.empty) =
       Inr \<lparr>status_code = 200,
          content = JObj
            [(''bounding_box_mm'', JObj [(''x'', JNum 100), (''y'', JNum 50), (''z'', JNum 2)]),
             (''flat_pattern'', JObj [(''flat_x_mm'', JNum 120), (''flat_y_mm'', JNum 50)]),
             (''flat_dxf'', JStr ''0 SECTION flat''),
             (''parsed_layers'', JList []),
             (''parsed_notes'', JList []),
             (''dxf_units'', JStr ''unknown'')]\<rparr>
   \<and> dxf_free (trace (snd (main_freecad_unfold ex_plain_env ex_step_upload Map.empty)))
   \<and> (Part_read_call ''/tmp/tmpk3v9.step'', None)
        \<in> set (trace (snd (main_freecad_unfold ex_plain_env ex_step_upload Map.empty)))
   \<and> file_suffix ex_plain_env ex_broken_upload \<noteq> ''.dxf''
   \<and> accepted ex_plain_env ex_broken_upload
   \<and> tmp_write ex_plain_env (up_bytes ex_broken_upload) = Inr ()
   \<and> Part_read ex_plain_env (up_bytes ex_broken_upload) = Inl (Exn ''Cannot read shape'')
   \<and> fst (main_freecad_unfold ex_plain_env ex_broken_upload Map.empty)
       = Inr (error_response 500 ''Request failed'' ''Cannot read shape'')
   \<and> (Part_read_call ''/tmp/tmpk3v9.step'', Some (Exn ''Cannot read shape''))
        \<in> set (trace (snd (main_freecad_unfold ex_plain_env ex_broken_upload Map.empty)))"
proof -
  have sfx: "file_suffix ex_plain_env ex_step_upload \<noteq> ''.dxf''"
    and sfx': "file_suffix ex_plain_env ex_broken_upload \<noteq> ''.dxf''"
    and sfxs: "file_suffix ex_plain_env ex_step_upload = ''.step''"
      "file_suffix ex_plain_env ex_broken_upload = ''.step''"
    by (simp_all add: run_defs ex_defs)
  have a: "accepted ex_plain_env ex_step_upload"
    "accepted ex_plain_env ex_broken_upload"
    "upload_tmp_stem ex_plain_env = Inr ''/tmp/tmpk3v9''"
    "tmp_write ex_plain_env (up_bytes ex_step_upload) = Inr ()"
    "tmp_write ex_plain_env (up_bytes ex_broken_upload) = Inr ()"
    "newDocument ex_plain_env = Inr ()"
    "Part_read ex_plain_env (up_bytes ex_step_upload)
       = Inr \<lparr>XLength = 100, YLength = 50, ZLength = 2\<rparr>"
    "Part_read ex_plain_env (up_bytes ex_broken_upload) = Inl (Exn ''Cannot read shape'')"
    by (simp_all add: accepted_def size_mb_def allowed_mimes_def ex_defs)
  have f: "fst (main_freecad_unfold ex_plain_env ex_step_upload Map.empty) =
       Inr \<lparr>status_code = 200,
          content = JObj
            [(''flat_pattern'', JObj [(''flat_x_mm'', JNum 120), (''flat_y_mm'', JNum 50)]),
             (''flat_pattern_in'', JObj [(''flat_x_in'', JNum 4.724), (''flat_y_in'', JNum 1.969)]),
             (''thickness_mm'', JNum 2),
             (''thickness_in'', JNum 0.079),
             (''parsed_layers'', JList []),
             (''parsed_notes'', JList []),
             (''dxf_units'', JStr ''unknown''),
             (''customer_name'', JNull),
             (''part_number'', JNull),
             (''part_description'', JNull),
             (''flat_dxf'', JStr ''0 SECTION flat'')]\<rparr>"
    by (simp add: run_defs ex_defs)
  have m: "fst (main_unfold ex_plain_env ex_step_upload Map.empty) =
       Inr \<lparr>status_code = 200,
          content = JObj
            [(''bounding_box_mm'', JObj [(''x'', JNum 100), (''y'', JNum 50), (''z'', JNum 2)]),
             (''flat_pattern'', JObj [(''flat_x_mm'', JNum 120), (''flat_y_mm'', JNum 50)]),
             (''flat_dxf'', JStr ''0 SECTION flat''),
             (''parsed_layers'', JList []),
             (''parsed_notes'', JList []),
             (''dxf_units'', JStr ''unknown'')]\<rparr>"
    by (simp add: run_defs ex_defs)
  have x: "fst (main_freecad_unfold ex_plain_env ex_broken_upload Map.empty)
       = Inr (error_response 500 ''Request failed'' ''Cannot read shape'')"
    by (simp add: run_defs ex_defs)
  show ?thesis
    using sfx sfx' sfxs a f m x
      non_dxf_goes_to_part_read [OF sfx, of Map.empty "''/tmp/tmpk3v9''"
        "Exn ''Cannot read shape''"
        "\<lparr>status_code = 200,
          content = JObj
            [(''flat_pattern'', JObj [(''flat_x_mm'', JNum 120), (''flat_y_mm'', JNum 50)]),
             (''flat_pattern_in'', JObj [(''flat_x_in'', JNum 4.724), (''flat_y_in'', JNum 1.969)]),
             (''thickness_mm'', JNum 2),
             (''thickness_in'', JNum 0.079),
             (''parsed_layers'', JList []),
             (''parsed_notes'', JList []),
             (''dxf_units'', JStr ''unknown''),
             (''customer_name'', JNull),
             (''part_number'', JNull),
             (''part_description'', JNull),
             (''flat_dxf'', JStr ''0 SECTION flat'')]\<rparr>"]
      non_dxf_goes_to_part_read [OF sfx', of Map.empty "''/tmp/tmpk3v9''"
        "Exn ''Cannot read shape''"
        "error_response 500 ''Request failed'' ''Cannot read shape''"]
    by simp
qed

section \<open>A missing unfolder\<close>

text \<open>
  Claim C9. When the SheetMetal module failed to load (\<^verbatim>\<open>SheetMetalUnfolder\<close> is
  \<^verbatim>\<open>None\<close>), a request to \<^verbatim>\<open>main_freecad.py\<close> with a valid input is answered with status
  200, and \<^verbatim>\<open>flat_pattern\<close>, \<^verbatim>\<open>flat_pattern_in\<close> and \<^verbatim>\<open>flat_dxf\<close> are all null. A valid
  input is one that passes the size and MIME checks and that the libraries process: the
  temporary file is created and written, the document is created, the import gives an
  object (for a \<^verbatim>\<open>.dxf\<close> file the parser reads it, the rescaled document is saved and the
  kernel imports at least one object from it; for any other file \<^verbatim>\<open>Part.read\<close> reads it),
  the recompute succeeds and the object has a bounding box; and \<^verbatim>\<open>os.remove\<close> does not
  raise. The response is then the success response with the three flat fields null.
\<close>

theorem missing_unfolder_gives_nulls:
  assumes "SheetMetalUnfolder env = None"
    and "accepted env file"
    and "upload_tmp_stem env = Inr stem"
    and "tmp_write env (up_bytes file) = Inr ()"
    and "newDocument env = Inr ()"
    and "expected_import env (Import_insert env) (file_suffix env file) (up_bytes file)
           = Some (pl, pn, u, ob)"
    and "recompute env 0 = Inr ()"
    and "Shape_BoundBox ob = Inr bbox"
    and "\<forall>p. os_remove env p = Inr ()"
  shows "fst (main_freecad_unfold env file fs0)
           = Inr (main_freecad_success env JNull JNull JNull pl pn u bbox)
     \<and> returned_status (fst (main_freecad_unfold env file fs0)) = Some 200
     \<and> returned_field (fst (main_freecad_unfold env file fs0)) ''flat_pattern'' = Some JNull
     \<and> returned_field (fst (main_freecad_unfold env file fs0)) ''flat_pattern_in'' = Some JNull
     \<and> returned_field (fst (main_freecad_unfold env file fs0)) ''flat_dxf'' = Some JNull"
proof -
  from main_freecad_body_after_upload [OF assms(2,3,4), of fs0] obtain s1 where
    s1: "fs s1 (stem @ file_suffix env file) = Some (up_bytes file)"
    and b: "main_freecad_unfold_body env file (init_st fs0) =
       then_do (import_shape env Import_insert_call (Import_insert env) (file_suffix env file)
                  (stem @ file_suffix env file))
         (\<lambda>(parsed_layers, parsed_notes, units_detected, ob).
            main_freecad_unfolding env parsed_layers parsed_notes units_detected ob) s1"
    by blast
  from import_shape_forward [OF s1 assms(5,6,7)]
  obtain s2 where "import_shape env Import_insert_call (Import_insert env)
      (file_suffix env file) (stem @ file_suffix env file) s1 = (Inr (pl, pn, u, ob), s2)"
    by (metis prod.collapse)
  with b have "main_freecad_unfold_body env file (init_st fs0)
      = main_freecad_unfolding env pl pn u ob s2"
    by (simp add: then_do_Inr)
  with assms(1,8) have b': "main_freecad_unfold_body env file (init_st fs0)
      = (Inr (main_freecad_success env JNull JNull JNull pl pn u bbox),
         s2\<lparr>trace := trace s2 @ [(BoundBox_call ob, None)]\<rparr>)"
    by (simp add: main_freecad_unfolding_def main_freecad_finish_def then_do_step return_def)
  from main_freecad_unfold_cases [of env "file" fs0] b' assms(9)
  have "fst (main_freecad_unfold env file fs0)
           = Inr (main_freecad_success env JNull JNull JNull pl pn u bbox)"
    by auto
  then show ?thesis
    by (simp add: returned_status_def returned_field_def main_freecad_success_def Let_def
        json_get_def)
qed

theorem missing_unfolder_gives_nulls_witness:
  "SheetMetalUnfolder ex_no_unfolder_env = None
   \<and> accepted ex_no_unfolder_env ex_dxf_upload
   \<and> upload_tmp_stem ex_no_unfolder_env = Inr ''/tmp/tmpk3v9''
   \<and> tmp_write ex_no_unfolder_env (up_bytes ex_dxf_upload) = Inr ()
   \<and> newDocument ex_no_unfolder_env = Inr ()
   \<and> expected_import ex_no_unfolder_env (Import_insert ex_no_unfolder_env)
        (file_suffix ex_no_unfolder_env ex_dxf_upload) (up_bytes ex_dxf_upload)
       = Some ([''0'', ''BEND''], [''Customer: ACME'', ''Part No: 4711'', ''Desc: bracket ''],
               ''inch'', ex_obj)
   \<and> recompute ex_no_unfolder_env 0 = Inr ()
   \<and> Shape_BoundBox ex_obj = Inr \<lparr>XLength = 100, YLength = 50, ZLength = 2\<rparr>
   \<and> (\<forall>p. os_remove ex_no_unfolder_env p = Inr ())
   \<and> returned_status (fst (main_freecad_unfold ex_no_unfolder_env ex_dxf_upload Map.empty))
       = Some 200
   \<and> returned_field (fst (main_freecad_unfold ex_no_unfolder_env ex_dxf_upload Map.empty))
        ''flat_pattern'' = Some JNull
   \<and> returned_field (fst (main_freecad_unfold ex_no_unfolder_env ex_dxf_upload Map.empty))
        ''flat_pattern_in'' = Some JNull
   \<and> returned_field (fst (main_freecad_unfold ex_no_unfolder_env ex_dxf_upload Map.empty))
        ''flat_dxf'' = Some JNull"
proof -
  have a: "SheetMetalUnfolder ex_no_unfolder_env = None"
    "accepted ex_no_unfolder_env ex_dxf_upload"
    "upload_tmp_stem ex_no_unfolder_env = Inr ''/tmp/tmpk3v9''"
    "tmp_write ex_no_unfolder_env (up_bytes ex_dxf_upload) = Inr ()"
    "newDocument ex_no_unfolder_env = Inr ()"
    by (simp_all add: accepted_def size_mb_def allowed_mimes_def ex_defs)
  have i: "expected_import ex_no_unfolder_env (Import_insert ex_no_unfolder_env)
        (file_suffix ex_no_unfolder_env ex_dxf_upload) (up_bytes ex_dxf_upload)
       = Some ([''0'', ''BEND''], [''Customer: ACME'', ''Part No: 4711'', ''Desc: bracket ''],
               ''inch'', ex_obj)"
    by (simp add: expected_import_def expected_units_def rescaled_def insunits_def run_defs
        ex_defs)
  have r: "recompute ex_no_unfolder_env 0 = Inr ()"
    "Shape_BoundBox ex_obj = Inr \<lparr>XLength = 100, YLength = 50, ZLength = 2\<rparr>"
    "\<forall>p. os_remove ex_no_unfolder_env p = Inr ()"
    by (simp_all add: ex_defs)
  show ?thesis
    using missing_unfolder_gives_nulls [OF a i r, of Map.empty] a i r
    by (simp add: returned_status_def returned_field_def main_freecad_success_def Let_def
        json_get_def)
qed

section \<open>Temporary files after the request\<close>

text \<open>
  Claim C1 asks that no temporary file of a request is left when it finishes. On the DXF
  path the handler overwrites \<open>tmp_path\<close> with the path of the \<^verbatim>\<open>_ascii.dxf\<close> copy, so the
  \<^verbatim>\<open>finally\<close> block removes the copy and the flat-pattern file but never the file that
  holds the uploaded bytes: after a successful DXF request on an empty filesystem that
  file is still there. A file that is no DXF is removed.
\<close>

theorem upload_temp_file_left_behind:
  "returned_status (fst (main_freecad_unfold ex_inch_env ex_dxf_upload Map.empty)) = Some 200
   \<and> fs (snd (main_freecad_unfold ex_inch_env ex_dxf_upload Map.empty)) ''/tmp/tmpk3v9.dxf''
       = Some (up_bytes ex_dxf_upload)
   \<and> fs (snd (main_freecad_unfold ex_inch_env ex_dxf_upload Map.empty))
       ''/tmp/tmpk3v9.dxf_ascii.dxf'' = None
   \<and> fs (snd (main_freecad_unfold ex_inch_env ex_dxf_upload Map.empty)) ''/tmp/tmpq7w2.dxf''
       = None
   \<and> fs (snd (main_freecad_unfold ex_plain_env ex_step_upload Map.empty)) ''/tmp/tmpk3v9.step''
       = None"
  by (simp add: run_defs ex_defs returned_status_def)

end
